theory Spec2Isabelle
  imports Complex_Main "HOL-Library.Multiset"
begin

section \<open>Data model (storage.go)\<close>

text \<open>
  \<^verbatim>\<open>RecordType\<close> is the Go enumeration of entry kinds, in the order of its \<^verbatim>\<open>iota\<close>
  block.
\<close>

datatype RecordType = Prompt | ModelResp | ToolCall | ToolOutput | SystemPrompt

text \<open>
  \<^verbatim>\<open>Record\<close> is one row of the history. \<^verbatim>\<open>time.Time\<close> is a point on a linear time
  axis, here a natural number whose zero is Go's zero time; \<^verbatim>\<open>*string\<close> is an optional
  string; Go's \<^verbatim>\<open>int\<close> is modelled by the unbounded integers (token counts stay far
  from 64 bits).
\<close>

record Record =
  ID :: int
  Timestamp :: nat
  Source :: RecordType
  Content :: string
  Live :: bool
  EstTokens :: int
  ContextID :: string
  ResponseID :: "string option"

text \<open>
  \<^verbatim>\<open>Context\<close> is a named context window. Its identifier field is called \<open>CtxID\<close>
  here, since \<open>ID\<close> is already the identifier of a \<open>Record\<close>.
\<close>

record Context =
  CtxID :: string
  Name :: string
  StartTime :: nat
  UseServerSideThreading :: bool
  LastResponseID :: "string option"

text \<open>
  Go errors are values; the model keeps the cause of an error and drops the prefixes that
  \<^verbatim>\<open>fmt.Errorf("...: %w", err)\<close> wraps around it.
\<close>

datatype error =
    ErrStorage
  | ErrNoRows
  | ErrConstraint
  | ErrEmptyName
  | ErrNoThreadingSupport
  | ErrNoSummarizer
  | ErrNoLiveRecords
  | ErrNoEvents
  | ErrModel string

section \<open>The database (database/sql over SQLite, as storage.go uses it)\<close>

text \<open>
  The database is the tables \<^verbatim>\<open>contexts\<close> and \<^verbatim>\<open>records\<close>, each a list of rows
  in rowid order, and the \<^verbatim>\<open>AUTOINCREMENT\<close> counter of \<^verbatim>\<open>records.id\<close>. The tool
  table \<^verbatim>\<open>context_tools\<close> is left out. The schema declares no \<^verbatim>\<open>UNIQUE\<close> constraint
  on \<^verbatim>\<open>contexts.name\<close>, and \<^verbatim>\<open>NewContextDB\<close> never switches foreign keys on, so
  neither is enforced here.

  Any statement can fail (closed handle, I/O error). Which ones do is decided by the
  environment: \<open>fails db n\<close> says that the \<open>n\<close>-th statement sent to the engine fails,
  and \<open>stmts db\<close> counts the statements sent so far. A closed database fails every
  statement from some index on.
\<close>

record DB =
  contexts :: "Context list"
  records :: "Record list"
  next_id :: int
  stmts :: nat
  fails :: "nat \<Rightarrow> bool"

type_synonym 'a io = "DB \<Rightarrow> (error + 'a) \<times> DB"

definition ret :: "'a \<Rightarrow> 'a io" where
  "ret x db = (Inr x, db)"

definition fail :: "error \<Rightarrow> 'a io" where
  "fail e db = (Inl e, db)"

text \<open>\<^verbatim>\<open>if err != nil { return ..., err }\<close>: the first error ends the sequence.\<close>

definition thenE :: "'a io \<Rightarrow> ('a \<Rightarrow> 'b io) \<Rightarrow> 'b io" where
  "thenE m f db = (case m db of (Inl e, db') \<Rightarrow> (Inl e, db') | (Inr x, db') \<Rightarrow> f x db')"

text \<open>One statement reaches the engine: it is counted, and fails if the environment says so.\<close>

definition stmt :: "unit io" where
  "stmt db = (if fails db (stmts db) then Inl ErrStorage else Inr (),
              db\<lparr>stmts := Suc (stmts db)\<rparr>)"

text \<open>
  \<^verbatim>\<open>db.QueryRow(...).Scan\<close> (first row, or \<^verbatim>\<open>sql.ErrNoRows\<close>), \<^verbatim>\<open>db.Query\<close> with its
  scan loop, and \<^verbatim>\<open>db.Exec\<close>.
\<close>

definition queryRow :: "(DB \<Rightarrow> 'a option) \<Rightarrow> 'a io" where
  "queryRow sel = thenE stmt (\<lambda>_ db. case sel db of None \<Rightarrow> (Inl ErrNoRows, db)
                                                 | Some x \<Rightarrow> (Inr x, db))"

definition query :: "(DB \<Rightarrow> 'a) \<Rightarrow> 'a io" where
  "query sel = thenE stmt (\<lambda>_ db. (Inr (sel db), db))"

definition exec :: "(DB \<Rightarrow> DB) \<Rightarrow> unit io" where
  "exec upd = thenE stmt (\<lambda>_ db. (Inr (), upd db))"

text \<open>
  \<^verbatim>\<open>tx, err := db.Begin(); defer tx.Rollback(); ...; return tx.Commit()\<close>. \<^verbatim>\<open>Begin\<close>
  and \<^verbatim>\<open>Commit\<close> are statements of their own. The body works on the tables; when it or
  the commit fails, the deferred rollback restores the tables of before \<^verbatim>\<open>Begin\<close>
  (including the \<^verbatim>\<open>AUTOINCREMENT\<close> counter, which SQLite keeps in a table).
\<close>

definition transaction :: "'a io \<Rightarrow> 'a io" where
  "transaction body db0 =
     (case stmt db0 of
        (Inl e, db1) \<Rightarrow> (Inl e, db1)
      | (Inr _, db1) \<Rightarrow>
          (case body db1 of
             (Inl e, tx) \<Rightarrow> (Inl e, db1\<lparr>stmts := stmts tx\<rparr>)
           | (Inr x, tx) \<Rightarrow>
               (case stmt tx of
                  (Inl e, tx') \<Rightarrow> (Inl e, db1\<lparr>stmts := stmts tx'\<rparr>)
                | (Inr _, tx') \<Rightarrow> (Inr x, tx'))))"

section \<open>Storage operations (storage.go)\<close>

definition GetContext :: "string \<Rightarrow> Context io" where
  "GetContext contextID = queryRow (\<lambda>db. find (\<lambda>c. CtxID c = contextID) (contexts db))"

definition GetContextByName :: "string \<Rightarrow> Context io" where
  "GetContextByName name = queryRow (\<lambda>db. find (\<lambda>c. Name c = name) (contexts db))"

definition getContextIDByName :: "string \<Rightarrow> string io" where
  "getContextIDByName name =
     queryRow (\<lambda>db. map_option CtxID (find (\<lambda>c. Name c = name) (contexts db)))"

definition SetContextServerSideThreading :: "string \<Rightarrow> bool \<Rightarrow> unit io" where
  "SetContextServerSideThreading contextID useServerSideThreading =
     exec (\<lambda>db. db\<lparr>contexts :=
       map (\<lambda>c. if CtxID c = contextID
                 then c\<lparr>UseServerSideThreading := useServerSideThreading\<rparr> else c)
           (contexts db)\<rparr>)"

definition UpdateContextLastResponseID :: "string \<Rightarrow> string \<Rightarrow> unit io" where
  "UpdateContextLastResponseID contextID responseID =
     exec (\<lambda>db. db\<lparr>contexts :=
       map (\<lambda>c. if CtxID c = contextID then c\<lparr>LastResponseID := Some responseID\<rparr> else c)
           (contexts db)\<rparr>)"

text \<open>
  \<^verbatim>\<open>CreateContextWithThreading\<close>. \<open>newID\<close> is what \<^verbatim>\<open>uuid.New().String()\<close> returns and
  \<open>now\<close> what \<^verbatim>\<open>time.Now().UTC()\<close> returns; \<^verbatim>\<open>contexts.id\<close> is the primary key, so
  the insert is refused when the identifier is already taken.
\<close>

definition CreateContextWithThreading :: "string \<Rightarrow> bool \<Rightarrow> string \<Rightarrow> nat \<Rightarrow> Context io" where
  "CreateContextWithThreading name useServerSideThreading newID now db =
     (if name = [] then (Inl ErrEmptyName, db)
      else
        (case GetContextByName name db of
           (Inr existingContext, db1) \<Rightarrow>
             (if UseServerSideThreading existingContext \<noteq> useServerSideThreading then
                (case SetContextServerSideThreading (CtxID existingContext)
                        useServerSideThreading db1 of
                   (Inl e, db2) \<Rightarrow> (Inl e, db2)
                 | (Inr _, db2) \<Rightarrow>
                     (Inr (existingContext\<lparr>UseServerSideThreading := useServerSideThreading\<rparr>),
                      db2))
              else (Inr existingContext, db1))
         | (Inl err, db1) \<Rightarrow>
             (if err \<noteq> ErrNoRows then (Inl err, db1)
              else
                thenE stmt (\<lambda>_ db2.
                  if list_ex (\<lambda>c. CtxID c = newID) (contexts db2) then (Inl ErrConstraint, db2)
                  else
                    let c = \<lparr>CtxID = newID, Name = name, StartTime = now,
                             UseServerSideThreading = useServerSideThreading,
                             LastResponseID = None\<rparr>
                    in (Inr c, db2\<lparr>contexts := contexts db2 @ [c]\<rparr>)) db1)))"

definition CreateContext :: "string \<Rightarrow> string \<Rightarrow> nat \<Rightarrow> Context io" where
  "CreateContext name newID now = CreateContextWithThreading name False newID now"

text \<open>
  \<^verbatim>\<open>ORDER BY start_time DESC\<close>; SQL leaves the order of rows with equal keys open, the
  model keeps them in rowid order.
\<close>

definition ListContexts :: "Context list io" where
  "ListContexts = query (\<lambda>db. rev (sort_key StartTime (rev (contexts db))))"

definition DeleteContext :: "string \<Rightarrow> unit io" where
  "DeleteContext contextID =
     transaction
       (thenE (exec (\<lambda>db. db\<lparr>records := filter (\<lambda>r. ContextID r \<noteq> contextID) (records db)\<rparr>))
          (\<lambda>_. exec (\<lambda>db. db\<lparr>contexts := filter (\<lambda>c. CtxID c \<noteq> contextID) (contexts db)\<rparr>)))"

definition DeleteContextByName :: "string \<Rightarrow> unit io" where
  "DeleteContextByName name = thenE (GetContextByName name) (\<lambda>ctx. DeleteContext (CtxID ctx))"

text \<open>
  \<^verbatim>\<open>InsertRecordWithResponseID\<close>. \<open>tokenCount\<close> is the package's tokenizer (an imported
  tokenizer, or the word count it falls back to), \<open>now\<close> the reading of the clock; the
  row gets the next value of the \<^verbatim>\<open>AUTOINCREMENT\<close> counter.
\<close>

definition InsertRecordWithResponseID ::
  "(string \<Rightarrow> int) \<Rightarrow> string \<Rightarrow> RecordType \<Rightarrow> string \<Rightarrow> bool \<Rightarrow> string option \<Rightarrow> nat
     \<Rightarrow> Record io" where
  "InsertRecordWithResponseID tokenCount contextID source content live responseID now =
     thenE stmt (\<lambda>_ db.
       let r = \<lparr>ID = next_id db, Timestamp = now, Source = source, Content = content,
                Live = live, EstTokens = tokenCount content, ContextID = contextID,
                ResponseID = responseID\<rparr>
       in (Inr r, db\<lparr>records := records db @ [r], next_id := next_id db + 1\<rparr>))"

definition InsertRecord ::
  "(string \<Rightarrow> int) \<Rightarrow> string \<Rightarrow> RecordType \<Rightarrow> string \<Rightarrow> bool \<Rightarrow> nat \<Rightarrow> Record io" where
  "InsertRecord tokenCount contextID source content live now =
     InsertRecordWithResponseID tokenCount contextID source content live None now"

text \<open>
  \<^verbatim>\<open>listRecordsWhere\<close>: \<^verbatim>\<open>SELECT ... WHERE <clause> ORDER BY ts ASC\<close>. The rows that
  satisfy the clause are sorted by timestamp; rows with equal timestamps stay in rowid
  order (\<open>sort_key\<close> is stable).
\<close>

definition listRecordsWhere :: "(Record \<Rightarrow> bool) \<Rightarrow> Record list io" where
  "listRecordsWhere whereClause = query (\<lambda>db. sort_key Timestamp (filter whereClause (records db)))"

definition ListLiveRecords :: "string \<Rightarrow> Record list io" where
  "ListLiveRecords contextID = listRecordsWhere (\<lambda>r. ContextID r = contextID \<and> Live r)"

definition ListRecordsInContext :: "string \<Rightarrow> Record list io" where
  "ListRecordsInContext contextID = listRecordsWhere (\<lambda>r. ContextID r = contextID)"

definition markRecordNotAlive :: "int \<Rightarrow> unit io" where
  "markRecordNotAlive recID =
     exec (\<lambda>tx. tx\<lparr>records := map (\<lambda>r. if ID r = recID then r\<lparr>Live := False\<rparr> else r) (records tx)\<rparr>)"

definition insertRecordTxWithResponseID ::
  "(string \<Rightarrow> int) \<Rightarrow> string \<Rightarrow> RecordType \<Rightarrow> string \<Rightarrow> bool \<Rightarrow> string option \<Rightarrow> nat
     \<Rightarrow> Record io" where
  "insertRecordTxWithResponseID tokenCount contextID source content live responseID now =
     thenE stmt (\<lambda>_ tx.
       let r = \<lparr>ID = next_id tx, Timestamp = now, Source = source, Content = content,
                Live = live, EstTokens = tokenCount content, ContextID = contextID,
                ResponseID = responseID\<rparr>
       in (Inr r, tx\<lparr>records := records tx @ [r], next_id := next_id tx + 1\<rparr>))"

definition insertRecordTx ::
  "(string \<Rightarrow> int) \<Rightarrow> string \<Rightarrow> RecordType \<Rightarrow> string \<Rightarrow> bool \<Rightarrow> nat \<Rightarrow> Record io" where
  "insertRecordTx tokenCount contextID source content live now =
     insertRecordTxWithResponseID tokenCount contextID source content live None now"

section \<open>Server-side threading eligibility (responses\_model.go)\<close>

text \<open>
  The test \<^verbatim>\<open>input.ResponseID != nil && *input.ResponseID != ""\<close> of the source.
\<close>

definition hasResponseID :: "Record \<Rightarrow> bool" where
  "hasResponseID r = (case ResponseID r of None \<Rightarrow> False | Some s \<Rightarrow> s \<noteq> [])"

text \<open>First loop: is there any tool call or tool output among the inputs.\<close>

fun anyToolRecord :: "Record list \<Rightarrow> bool" where
  "anyToolRecord [] = False"
| "anyToolRecord (input # inputs) =
     (if Source input = ToolCall \<or> Source input = ToolOutput then True
      else anyToolRecord inputs)"

text \<open>
  Second loop: scanning from the last index down to 0, the first model response met
  (\<^verbatim>\<open>lastModelResponse\<close>, a nil pointer when there is none).
\<close>

definition lastModelResponse :: "Record list \<Rightarrow> Record option" where
  "lastModelResponse inputs = find (\<lambda>r. Source r = ModelResp) (rev inputs)"

text \<open>
  Third loop: the two flags \<^verbatim>\<open>hasResponseIDs\<close> and \<^verbatim>\<open>hasMissingResponseIDs\<close>,
  updated record by record.
\<close>

fun responseIDFlags :: "bool \<times> bool \<Rightarrow> Record list \<Rightarrow> bool \<times> bool" where
  "responseIDFlags flags [] = flags"
| "responseIDFlags (hasResponseIDs, hasMissingResponseIDs) (input # inputs) =
     (if Source input = ModelResp then
        (if hasResponseID input
         then responseIDFlags (True, hasMissingResponseIDs) inputs
         else responseIDFlags (hasResponseIDs, True) inputs)
      else responseIDFlags (hasResponseIDs, hasMissingResponseIDs) inputs)"

definition canUseServerSideThreading :: "Record list \<Rightarrow> bool" where
  "canUseServerSideThreading inputs =
     (if anyToolRecord inputs then False
      else if (case lastModelResponse inputs of
                 None \<Rightarrow> False
               | Some r \<Rightarrow> \<not> hasResponseID r) then False
      else (case responseIDFlags (False, False) inputs of
              (hasResponseIDs, hasMissingResponseIDs) \<Rightarrow>
                if hasResponseIDs \<and> hasMissingResponseIDs then False else True))"

text \<open>
  The decision at the start of \<^verbatim>\<open>CallWithThreadingAndOpts\<close>: \<^verbatim>\<open>previousResponseID\<close>
  stays nil, and the call is made client-side with the full history, unless threading
  was asked for, a last response identifier exists and the inputs are eligible.
\<close>

definition previousResponseID :: "bool \<Rightarrow> string option \<Rightarrow> Record list \<Rightarrow> string option" where
  "previousResponseID useServerSideThreading lastResponseID inputs =
     (if useServerSideThreading \<and> lastResponseID \<noteq> None \<and> canUseServerSideThreading inputs
      then lastResponseID else None)"

section \<open>The session (the ContextWindow methods and summarizer.go)\<close>

record CallModelOpts =
  DisableTools :: bool

text \<open>
  A model adapter is an external collaborator: its reply is a function of what it is sent.
  \<^verbatim>\<open>Model\<close> is the required interface (\<open>Call\<close>); the optional interfaces, which the
  source finds by a type assertion on the adapter, are optional fields:
  \<^verbatim>\<open>ServerSideThreadingCapable\<close> (\<open>CallWithThreading\<close>) and \<^verbatim>\<open>CallOptsCapable\<close>
  (\<open>CallWithOpts\<close> together with \<open>CallWithThreadingAndOpts\<close>).
\<close>

record Model =
  Call :: "Record list \<Rightarrow> error + Record list \<times> int"
  ServerSideThreadingCapable ::
    "(bool \<Rightarrow> string option \<Rightarrow> Record list \<Rightarrow> error + Record list \<times> string option \<times> int) option"
  CallOptsCapable ::
    "((Record list \<Rightarrow> CallModelOpts \<Rightarrow> error + Record list \<times> int) \<times>
      (bool \<Rightarrow> string option \<Rightarrow> Record list \<Rightarrow> CallModelOpts
         \<Rightarrow> error + Record list \<times> string option \<times> int)) option"

text \<open>
  \<^verbatim>\<open>ContextWindow\<close>. The database handle is passed beside the session; \<open>metrics\<close> is
  the counter \<^verbatim>\<open>Metrics.total\<close>; a nil summarizer is \<open>None\<close>. The middleware list and
  the tool maps are left out.
\<close>

record ContextWindow =
  model :: Model
  maxTokens :: int
  summarizer :: "Model option"
  summarizerPrompt :: string
  metrics :: int
  currentContext :: string

text \<open>
  \<^verbatim>\<open>NewContextWindowWithThreading\<close>; \<open>fresh\<close> is the identifier \<^verbatim>\<open>uuid.New()\<close>
  gives when the name is empty.
\<close>

definition NewContextWindowWithThreading ::
  "Model \<Rightarrow> string \<Rightarrow> bool \<Rightarrow> string \<Rightarrow> string \<Rightarrow> nat \<Rightarrow> ContextWindow io" where
  "NewContextWindowWithThreading m contextName useServerSideThreading fresh newID now db =
     (let contextName = (if contextName = [] then fresh else contextName);
          cw = \<lparr>model = m, maxTokens = 4096, summarizer = None, summarizerPrompt = [],
                metrics = 0, currentContext = contextName\<rparr>
      in case GetContextByName contextName db of
           (Inr _, db1) \<Rightarrow> (Inr cw, db1)
         | (Inl err, db1) \<Rightarrow>
             (if err = ErrNoRows then
                (case CreateContextWithThreading contextName useServerSideThreading newID now db1 of
                   (Inl e, db2) \<Rightarrow> (Inl e, db2)
                 | (Inr _, db2) \<Rightarrow> (Inr cw, db2))
              else (Inl err, db1)))"

definition NewContextWindow :: "Model \<Rightarrow> string \<Rightarrow> string \<Rightarrow> string \<Rightarrow> nat \<Rightarrow> ContextWindow io" where
  "NewContextWindow m contextName fresh newID now =
     NewContextWindowWithThreading m contextName False fresh newID now"

definition AddPrompt :: "(string \<Rightarrow> int) \<Rightarrow> ContextWindow \<Rightarrow> string \<Rightarrow> nat \<Rightarrow> unit io" where
  "AddPrompt tokenCount cw text now =
     thenE (getContextIDByName (currentContext cw)) (\<lambda>contextID.
     thenE (InsertRecord tokenCount contextID Prompt text True now) (\<lambda>_. ret ()))"

definition AddToolCall ::
  "(string \<Rightarrow> int) \<Rightarrow> ContextWindow \<Rightarrow> string \<Rightarrow> string \<Rightarrow> nat \<Rightarrow> unit io" where
  "AddToolCall tokenCount cw name args now =
     thenE (getContextIDByName (currentContext cw)) (\<lambda>contextID.
     thenE (InsertRecord tokenCount contextID ToolCall (name @ ''('' @ args @ '')'') True now)
       (\<lambda>_. ret ()))"

definition AddToolOutput :: "(string \<Rightarrow> int) \<Rightarrow> ContextWindow \<Rightarrow> string \<Rightarrow> nat \<Rightarrow> unit io" where
  "AddToolOutput tokenCount cw output now =
     thenE (getContextIDByName (currentContext cw)) (\<lambda>contextID.
     thenE (InsertRecord tokenCount contextID ToolOutput output True now) (\<lambda>_. ret ()))"

text \<open>
  \<^verbatim>\<open>SetSystemPrompt\<close>: inside one transaction, every system-prompt row of the context
  is set to not live, then the new one is inserted.
\<close>

definition SetSystemPrompt :: "(string \<Rightarrow> int) \<Rightarrow> ContextWindow \<Rightarrow> string \<Rightarrow> nat \<Rightarrow> unit io" where
  "SetSystemPrompt tokenCount cw text now =
     thenE (getContextIDByName (currentContext cw)) (\<lambda>contextID.
       transaction
         (thenE (exec (\<lambda>tx. tx\<lparr>records :=
                    map (\<lambda>r. if ContextID r = contextID \<and> Source r = SystemPrompt
                              then r\<lparr>Live := False\<rparr> else r) (records tx)\<rparr>))
            (\<lambda>_. thenE (insertRecordTx tokenCount contextID SystemPrompt text True now)
              (\<lambda>_. ret ()))))"

definition LiveRecords :: "ContextWindow \<Rightarrow> Record list io" where
  "LiveRecords cw =
     thenE (getContextIDByName (currentContext cw)) (\<lambda>contextID. ListLiveRecords contextID)"

text \<open>
  The choice of the adapter entry point in \<^verbatim>\<open>CallModelWithOpts\<close> (the
  \<^verbatim>\<open>if contextInfo.UseServerSideThreading\<close> statement), with the three results
  \<^verbatim>\<open>events\<close>, \<^verbatim>\<open>responseID\<close> and \<^verbatim>\<open>tokensUsed\<close>.
\<close>

definition invokeModel ::
  "Model \<Rightarrow> Context \<Rightarrow> Record list \<Rightarrow> CallModelOpts
     \<Rightarrow> error + Record list \<times> string option \<times> int" where
  "invokeModel m contextInfo recs opts =
     (if UseServerSideThreading contextInfo then
        (case ServerSideThreadingCapable m of
           Some callWithThreading \<Rightarrow>
             (case CallOptsCapable m of
                Some (_, callWithThreadingAndOpts) \<Rightarrow>
                  callWithThreadingAndOpts True (LastResponseID contextInfo) recs opts
              | None \<Rightarrow> callWithThreading True (LastResponseID contextInfo) recs)
         | None \<Rightarrow> Inl ErrNoThreadingSupport)
      else
        (case (case CallOptsCapable m of
                 Some (callWithOpts, _) \<Rightarrow> callWithOpts recs opts
               | None \<Rightarrow> Call m recs) of
           Inl e \<Rightarrow> Inl e
         | Inr (events, tokensUsed) \<Rightarrow> Inr (events, None, tokensUsed)))"

text \<open>
  The loop that stores the events, one \<^verbatim>\<open>InsertRecordWithResponseID\<close> each, outside
  any transaction; \<open>clock i\<close> is the reading of the clock at the \<open>i\<close>-th insert of the
  call. It returns \<^verbatim>\<open>lastMsg\<close>.
\<close>

fun insertEvents ::
  "(string \<Rightarrow> int) \<Rightarrow> string \<Rightarrow> (nat \<Rightarrow> nat) \<Rightarrow> nat \<Rightarrow> string \<Rightarrow> Record list \<Rightarrow> string io" where
  "insertEvents tokenCount contextID clock i lastMsg [] db = (Inr lastMsg, db)"
| "insertEvents tokenCount contextID clock i lastMsg (event # events) db =
     (case InsertRecordWithResponseID tokenCount contextID (Source event) (Content event)
             (Live event) (ResponseID event) (clock i) db of
        (Inl e, db') \<Rightarrow> (Inl e, db')
      | (Inr _, db') \<Rightarrow> insertEvents tokenCount contextID clock (Suc i) (Content event) events db')"

text \<open>
  \<^verbatim>\<open>CallModelWithOpts\<close>. The session is a pointer in Go, so the updated session is
  returned on every path. On the last error path the source returns \<^verbatim>\<open>lastMsg\<close>
  beside the error; the model returns the error.
\<close>

definition CallModelWithOpts ::
  "(string \<Rightarrow> int) \<Rightarrow> ContextWindow \<Rightarrow> (nat \<Rightarrow> nat) \<Rightarrow> CallModelOpts \<Rightarrow> DB
     \<Rightarrow> (error + string) \<times> ContextWindow \<times> DB" where
  "CallModelWithOpts tokenCount cw clock opts db =
     (case getContextIDByName (currentContext cw) db of
        (Inl e, db1) \<Rightarrow> (Inl e, cw, db1)
      | (Inr contextID, db1) \<Rightarrow>
     (case GetContext contextID db1 of
        (Inl e, db2) \<Rightarrow> (Inl e, cw, db2)
      | (Inr contextInfo, db2) \<Rightarrow>
     (case ListLiveRecords contextID db2 of
        (Inl e, db3) \<Rightarrow> (Inl e, cw, db3)
      | (Inr recs, db3) \<Rightarrow>
     (case invokeModel (model cw) contextInfo recs opts of
        Inl e \<Rightarrow> (Inl e, cw, db3)
      | Inr (events, responseID, tokensUsed) \<Rightarrow>
          (let cw' = cw\<lparr>metrics := metrics cw + tokensUsed\<rparr> in
           case insertEvents tokenCount contextID clock 0 [] events db3 of
             (Inl e, db4) \<Rightarrow> (Inl e, cw', db4)
           | (Inr lastMsg, db4) \<Rightarrow>
               (case responseID of
                  None \<Rightarrow> (Inr lastMsg, cw', db4)
                | Some rid \<Rightarrow>
                    (case UpdateContextLastResponseID contextID rid db4 of
                       (Inl e, db5) \<Rightarrow> (Inl e, cw', db5)
                     | (Inr _, db5) \<Rightarrow> (Inr lastMsg, cw', db5))))))))"

definition CallModel ::
  "(string \<Rightarrow> int) \<Rightarrow> ContextWindow \<Rightarrow> (nat \<Rightarrow> nat) \<Rightarrow> DB
     \<Rightarrow> (error + string) \<times> ContextWindow \<times> DB" where
  "CallModel tokenCount cw clock = CallModelWithOpts tokenCount cw clock \<lparr>DisableTools = False\<rparr>"

definition TotalTokens :: "ContextWindow \<Rightarrow> int" where
  "TotalTokens cw = metrics cw"

definition LiveTokens :: "ContextWindow \<Rightarrow> int io" where
  "LiveTokens cw =
     thenE (getContextIDByName (currentContext cw)) (\<lambda>contextID.
     thenE (ListLiveRecords contextID) (\<lambda>recs. ret (sum_list (map EstTokens recs))))"

text \<open>
  \<^verbatim>\<open>TokenUsage\<close>, with fields named \<open>tu...\<close> since \<open>Live\<close> is a field of \<open>Record\<close>.
  \<open>tuPercent\<close> is a \<^verbatim>\<open>float64\<close> in Go and the exact quotient here.
\<close>

record TokenUsage =
  tuLive :: int
  tuTotal :: int
  tuMax :: int
  tuPercent :: real

definition TokenUsage :: "ContextWindow \<Rightarrow> TokenUsage io" where
  "TokenUsage cw =
     thenE (LiveTokens cw) (\<lambda>live.
       ret \<lparr>tuLive = live, tuTotal = TotalTokens cw, tuMax = maxTokens cw,
            tuPercent = (if maxTokens cw > 0 then real_of_int live / real_of_int (maxTokens cw)
                         else 0)\<rparr>)"

text \<open>
  The method \<^verbatim>\<open>(cw *ContextWindow) DeleteContext\<close>, named apart from the storage
  function of the same name. \<open>newID\<close> and \<open>now\<close> are the identifier and the clock
  reading that the creation of the replacement context draws.
\<close>

definition ContextWindow_DeleteContext ::
  "ContextWindow \<Rightarrow> string \<Rightarrow> string \<Rightarrow> nat \<Rightarrow> DB \<Rightarrow> (error + unit) \<times> ContextWindow \<times> DB" where
  "ContextWindow_DeleteContext cw name newID now db =
     (case
        (if name = currentContext cw then
           (case ListContexts db of
              (Inl e, db1) \<Rightarrow> (Inl e, cw, db1)
            | (Inr ctxs, db1) \<Rightarrow>
                (if length ctxs \<le> 1 then
                   (case CreateContext ''default'' newID now db1 of
                      (Inl e, db2) \<Rightarrow> (Inl e, cw, db2)
                    | (Inr _, db2) \<Rightarrow> (Inr (), cw\<lparr>currentContext := ''default''\<rparr>, db2))
                 else
                   (Inr (),
                    (case find (\<lambda>ctx. Name ctx \<noteq> name) ctxs of
                       Some ctx \<Rightarrow> cw\<lparr>currentContext := Name ctx\<rparr>
                     | None \<Rightarrow> cw),
                    db1)))
         else (Inr (), cw, db)) of
        (Inl e, cw', db') \<Rightarrow> (Inl e, cw', db')
      | (Inr _, cw', db') \<Rightarrow>
          (case DeleteContextByName name db' of
             (Inl e, db'') \<Rightarrow> (Inl e, cw', db'')
           | (Inr _, db'') \<Rightarrow> (Inr (), cw', db'')))"

subsection \<open>Summaries (summarizer.go)\<close>

record SummaryResult =
  Summary :: string
  Replaced :: "Record list"
  OrigCount :: int
  SummaryCount :: int

text \<open>
  \<^verbatim>\<open>SummarizeLiveContextInContext\<close>; \<open>defaultSummarizerPrompt\<close> is the embedded file
  \<^verbatim>\<open>default_summarize.md\<close>. The fields the source leaves out of the prompt record have
  Go's zero values.
\<close>

definition SummarizeLiveContextInContext ::
  "(string \<Rightarrow> int) \<Rightarrow> string \<Rightarrow> ContextWindow \<Rightarrow> string \<Rightarrow> SummaryResult io" where
  "SummarizeLiveContextInContext tokenCount defaultSummarizerPrompt cw contextName db =
     (case summarizer cw of
        None \<Rightarrow> (Inl ErrNoSummarizer, db)
      | Some summ \<Rightarrow>
          thenE (getContextIDByName contextName) (\<lambda>contextID.
          thenE (ListLiveRecords contextID) (\<lambda>liveRecords.
            if length liveRecords = 0 then fail ErrNoLiveRecords
            else
              let origCount = sum_list (map EstTokens liveRecords);
                  prompt = (if summarizerPrompt cw = [] then defaultSummarizerPrompt
                            else summarizerPrompt cw);
                  summaryInput =
                    \<lparr>ID = 0, Timestamp = 0, Source = Prompt, Content = prompt, Live = False,
                     EstTokens = 0, ContextID = contextID, ResponseID = None\<rparr> # liveRecords
              in (case Call summ summaryInput of
                    Inl e \<Rightarrow> fail e
                  | Inr (events, _) \<Rightarrow>
                      if length events = 0 then fail ErrNoEvents
                      else
                        let summary = Content (last events)
                        in ret \<lparr>Summary = summary, Replaced = liveRecords,
                                OrigCount = origCount,
                                SummaryCount = tokenCount summary\<rparr>))) db)"

definition SummarizeLiveContext ::
  "(string \<Rightarrow> int) \<Rightarrow> string \<Rightarrow> ContextWindow \<Rightarrow> SummaryResult io" where
  "SummarizeLiveContext tokenCount defaultSummarizerPrompt cw =
     SummarizeLiveContextInContext tokenCount defaultSummarizerPrompt cw (currentContext cw)"

text \<open>The loop of \<^verbatim>\<open>AcceptSummaryInContext\<close> over \<^verbatim>\<open>result.Replaced\<close>.\<close>

fun markAllNotAlive :: "Record list \<Rightarrow> unit io" where
  "markAllNotAlive [] tx = (Inr (), tx)"
| "markAllNotAlive (record # rest) tx =
     (case markRecordNotAlive (ID record) tx of
        (Inl e, tx') \<Rightarrow> (Inl e, tx')
      | (Inr _, tx') \<Rightarrow> markAllNotAlive rest tx')"

definition AcceptSummaryInContext ::
  "(string \<Rightarrow> int) \<Rightarrow> ContextWindow \<Rightarrow> SummaryResult \<Rightarrow> string \<Rightarrow> nat \<Rightarrow> unit io" where
  "AcceptSummaryInContext tokenCount cw result contextName now =
     thenE (getContextIDByName contextName) (\<lambda>contextID.
       transaction
         (thenE (markAllNotAlive (Replaced result))
            (\<lambda>_. thenE (insertRecordTx tokenCount contextID ModelResp (Summary result) True now)
              (\<lambda>_. ret ()))))"

definition AcceptSummary ::
  "(string \<Rightarrow> int) \<Rightarrow> ContextWindow \<Rightarrow> SummaryResult \<Rightarrow> nat \<Rightarrow> unit io" where
  "AcceptSummary tokenCount cw result now =
     AcceptSummaryInContext tokenCount cw result (currentContext cw) now"

text \<open>\<^verbatim>\<open>RejectSummary\<close> has an empty body: session and database are as before.\<close>

definition RejectSummary :: "ContextWindow \<Rightarrow> SummaryResult \<Rightarrow> DB \<Rightarrow> ContextWindow \<times> DB" where
  "RejectSummary cw result db = (cw, db)"

section \<open>Auxiliary notions for the statements\<close>

text \<open>
  The rows that the storing loop of \<^verbatim>\<open>CallModelWithOpts\<close> has appended once it has
  stored the given events: the \<open>j\<close>-th of them gets the \<open>j\<close>-th identifier from \<open>n\<close> on and
  the \<open>j\<close>-th clock reading from \<open>i\<close> on, and its token estimate is computed from its
  content.
\<close>

fun eventRows ::
  "(string \<Rightarrow> int) \<Rightarrow> string \<Rightarrow> (nat \<Rightarrow> nat) \<Rightarrow> nat \<Rightarrow> int \<Rightarrow> Record list \<Rightarrow> Record list" where
  "eventRows tokenCount contextID clock i n [] = []"
| "eventRows tokenCount contextID clock i n (event # events) =
     \<lparr>ID = n, Timestamp = clock i, Source = Source event, Content = Content event,
      Live = Live event, EstTokens = tokenCount (Content event), ContextID = contextID,
      ResponseID = ResponseID event\<rparr>
     # eventRows tokenCount contextID clock (Suc i) (n + 1) events"

subsection \<open>Example values\<close>

text \<open>
  A stub adapter that implements \<open>Call\<close> only and answers every call with the same
  events and token usage (the \<^verbatim>\<open>dummyModelTokens\<close> of the test suite), a stand-in
  tokenizer (one token per character), and a store holding the single context
  \<open>demo\<close>, on which no statement fails.
\<close>

definition stubModel :: "Record list \<Rightarrow> int \<Rightarrow> Model" where
  "stubModel events tokens =
     \<lparr>Call = (\<lambda>inputs. Inr (events, tokens)), ServerSideThreadingCapable = None,
      CallOptsCapable = None\<rparr>"

definition charCount :: "string \<Rightarrow> int" where
  "charCount s = int (length s)"

definition demoContext :: Context where
  "demoContext = \<lparr>CtxID = ''id-demo'', Name = ''demo'', StartTime = 1,
                   UseServerSideThreading = False, LastResponseID = None\<rparr>"

definition demoDB :: DB where
  "demoDB = \<lparr>contexts = [demoContext], records = [], next_id = 1, stmts = 0,
              fails = (\<lambda>n. False)\<rparr>"

definition demoWindow :: "Model \<Rightarrow> ContextWindow" where
  "demoWindow m = \<lparr>model = m, maxTokens = 4096, summarizer = None, summarizerPrompt = [],
                    metrics = 0, currentContext = ''demo''\<rparr>"

definition reply :: "string \<Rightarrow> Record" where
  "reply s = \<lparr>ID = 0, Timestamp = 0, Source = ModelResp, Content = s, Live = True,
              EstTokens = charCount s, ContextID = [], ResponseID = None\<rparr>"

text \<open>
  A store written by two inserts into the context of \<open>demoDB\<close>, where the clock reads 20
  at the first insert and 10 at the second (\<^verbatim>\<open>time.Now()\<close> is the wall clock, which can
  be set back between two calls).
\<close>

definition retreatingClockDB :: DB where
  "retreatingClockDB =
     snd (InsertRecord charCount ''id-demo'' Prompt ''second'' True 10
       (snd (InsertRecord charCount ''id-demo'' Prompt ''first'' True 20 demoDB)))"

section \<open>Eligibility: characterisation\<close>

lemma anyToolRecord_iff:
  "anyToolRecord inputs \<longleftrightarrow> (\<exists>r\<in>set inputs. Source r = ToolCall \<or> Source r = ToolOutput)"
  by (induction inputs) auto

lemma responseIDFlags_fst:
  "fst (responseIDFlags (h, m) inputs) \<longleftrightarrow>
     h \<or> (\<exists>r\<in>set inputs. Source r = ModelResp \<and> hasResponseID r)"
  by (induction inputs arbitrary: h m) auto

lemma responseIDFlags_snd:
  "snd (responseIDFlags (h, m) inputs) \<longleftrightarrow>
     m \<or> (\<exists>r\<in>set inputs. Source r = ModelResp \<and> \<not> hasResponseID r)"
  by (induction inputs arbitrary: h m) auto

lemma lastModelResponse_None:
  "lastModelResponse inputs = None \<longleftrightarrow> (\<forall>r\<in>set inputs. Source r \<noteq> ModelResp)"
  by (auto simp: lastModelResponse_def find_None_iff)

lemma find_Some_member: "find P xs = Some x \<Longrightarrow> x \<in> set xs \<and> P x"
  by (induction xs) (auto split: if_splits)

lemma lastModelResponse_Some:
  "lastModelResponse inputs = Some r \<Longrightarrow> r \<in> set inputs \<and> Source r = ModelResp"
  using find_Some_member [of "\<lambda>r. Source r = ModelResp" "rev inputs" r]
  by (simp add: lastModelResponse_def)

lemma canUse_iff:
  "canUseServerSideThreading inputs \<longleftrightarrow>
     (\<forall>r\<in>set inputs. Source r \<noteq> ToolCall \<and> Source r \<noteq> ToolOutput) \<and>
     (\<forall>r\<in>set inputs. Source r = ModelResp \<longrightarrow> hasResponseID r)"
proof (cases "anyToolRecord inputs")
  case True
  then show ?thesis
    by (auto simp: canUseServerSideThreading_def anyToolRecord_iff)
next
  case noTool: False
  obtain h m where flags: "responseIDFlags (False, False) inputs = (h, m)"
    by (cases "responseIDFlags (False, False) inputs")
  have h: "h \<longleftrightarrow> (\<exists>r\<in>set inputs. Source r = ModelResp \<and> hasResponseID r)"
    using responseIDFlags_fst [of False False inputs] flags by simp
  have m: "m \<longleftrightarrow> (\<exists>r\<in>set inputs. Source r = ModelResp \<and> \<not> hasResponseID r)"
    using responseIDFlags_snd [of False False inputs] flags by simp
  show ?thesis
  proof (cases "lastModelResponse inputs")
    case None
    then have "\<forall>r\<in>set inputs. Source r \<noteq> ModelResp"
      by (simp add: lastModelResponse_None)
    with noTool None flags h m show ?thesis
      by (auto simp: canUseServerSideThreading_def anyToolRecord_iff)
  next
    case (Some l)
    then have l: "l \<in> set inputs" "Source l = ModelResp"
      using lastModelResponse_Some by blast+
    show ?thesis
    proof (cases "hasResponseID l")
      case True
      with l have "h" using h by blast
      with noTool Some True flags m show ?thesis
        by (auto simp: canUseServerSideThreading_def anyToolRecord_iff)
    next
      case False
      with noTool Some l show ?thesis
        by (auto simp: canUseServerSideThreading_def)
    qed
  qed
qed

text \<open>
  Claim C1. A live-record set is eligible for server-side threading exactly when it holds
  no tool-call and no tool-output record and every model response in it carries a
  non-empty continuation token (so a set without model responses is eligible). In
  particular: a prompt, a model response with a token and a prompt are eligible; any list
  with a tool call somewhere in it is not; a model response without a token followed,
  anywhere later, by a model response is not. With threading asked for and a last
  response identifier at hand, that identifier is passed on exactly when the inputs
  are eligible; when they are not, the call is made without it, and no error arises.
\<close>

theorem C1_threading_eligibility:
  "(canUseServerSideThreading inputs \<longleftrightarrow>
      (\<forall>r\<in>set inputs. Source r \<noteq> ToolCall \<and> Source r \<noteq> ToolOutput) \<and>
      (\<forall>r\<in>set inputs. Source r = ModelResp \<longrightarrow>
          (\<exists>t. ResponseID r = Some t \<and> t \<noteq> [])))
   \<and> (Source p = Prompt \<and> Source a = ModelResp \<and> ResponseID a = Some t1 \<and> t1 \<noteq> [] \<and>
        Source q = Prompt \<longrightarrow> canUseServerSideThreading [p, a, q])
   \<and> (Source c = ToolCall \<longrightarrow> \<not> canUseServerSideThreading (xs @ c # ys))
   \<and> (Source u = ModelResp \<and> ResponseID u = None \<and> Source v = ModelResp \<and>
        ResponseID v = Some t2 \<longrightarrow> \<not> canUseServerSideThreading (xs @ u # ys @ v # zs))
   \<and> (previousResponseID True (Some tok) inputs = Some tok \<longleftrightarrow>
        canUseServerSideThreading inputs)
   \<and> (\<not> canUseServerSideThreading inputs \<longrightarrow>
        previousResponseID useServerSideThreading lastResponseID inputs = None)"
proof -
  have tok: "hasResponseID r \<longleftrightarrow> (\<exists>t. ResponseID r = Some t \<and> t \<noteq> [])" for r
    by (cases "ResponseID r") (simp_all add: hasResponseID_def)
  have sel: "(previousResponseID True (Some tok) inputs = Some tok \<longleftrightarrow>
        canUseServerSideThreading inputs)
     \<and> (\<not> canUseServerSideThreading inputs \<longrightarrow>
        previousResponseID useServerSideThreading lastResponseID inputs = None)"
    by (simp add: previousResponseID_def)
  have main: "(canUseServerSideThreading inputs \<longleftrightarrow>
      (\<forall>r\<in>set inputs. Source r \<noteq> ToolCall \<and> Source r \<noteq> ToolOutput) \<and>
      (\<forall>r\<in>set inputs. Source r = ModelResp \<longrightarrow>
          (\<exists>t. ResponseID r = Some t \<and> t \<noteq> [])))
   \<and> (Source p = Prompt \<and> Source a = ModelResp \<and> ResponseID a = Some t1 \<and> t1 \<noteq> [] \<and>
        Source q = Prompt \<longrightarrow> canUseServerSideThreading [p, a, q])
   \<and> (Source c = ToolCall \<longrightarrow> \<not> canUseServerSideThreading (xs @ c # ys))
   \<and> (Source u = ModelResp \<and> ResponseID u = None \<and> Source v = ModelResp \<and>
        ResponseID v = Some t2 \<longrightarrow> \<not> canUseServerSideThreading (xs @ u # ys @ v # zs))"
    unfolding canUse_iff tok by auto
  show ?thesis
    apply (rule conjI, rule main [THEN conjunct1])
    apply (rule conjI, rule main [THEN conjunct2, THEN conjunct1])
    apply (rule conjI, rule main [THEN conjunct2, THEN conjunct2, THEN conjunct1])
    apply (rule conjI, rule main [THEN conjunct2, THEN conjunct2, THEN conjunct2])
    apply (rule sel)
    done
qed

theorem C1_threading_eligibility_witness:
  "canUseServerSideThreading
     [\<lparr>ID = 1, Timestamp = 1, Source = Prompt, Content = ''Hello'', Live = True,
       EstTokens = 1, ContextID = ''c'', ResponseID = None\<rparr>,
      \<lparr>ID = 2, Timestamp = 2, Source = ModelResp, Content = ''Hi there'', Live = True,
       EstTokens = 2, ContextID = ''c'', ResponseID = Some ''resp_123''\<rparr>,
      \<lparr>ID = 3, Timestamp = 3, Source = Prompt, Content = ''How are you?'', Live = True,
       EstTokens = 4, ContextID = ''c'', ResponseID = None\<rparr>]
   \<and> \<not> canUseServerSideThreading
     ([\<lparr>ID = 1, Timestamp = 1, Source = Prompt, Content = ''Hello'', Live = True,
       EstTokens = 1, ContextID = ''c'', ResponseID = None\<rparr>] @
      \<lparr>ID = 4, Timestamp = 4, Source = ToolCall, Content = ''some_tool({})'', Live = True,
       EstTokens = 3, ContextID = ''c'', ResponseID = None\<rparr> #
      [\<lparr>ID = 2, Timestamp = 2, Source = ModelResp, Content = ''Hi there'', Live = True,
       EstTokens = 2, ContextID = ''c'', ResponseID = Some ''resp_123''\<rparr>])
   \<and> \<not> canUseServerSideThreading
     ([] @ \<lparr>ID = 2, Timestamp = 2, Source = ModelResp, Content = ''Fine'', Live = True,
       EstTokens = 1, ContextID = ''c'', ResponseID = None\<rparr> # [] @
      \<lparr>ID = 3, Timestamp = 3, Source = ModelResp, Content = ''Yes'', Live = True,
       EstTokens = 1, ContextID = ''c'', ResponseID = Some ''resp_456''\<rparr> # [])"
  using
    C1_threading_eligibility
      [of _
          "\<lparr>ID = 1, Timestamp = 1, Source = Prompt, Content = ''Hello'', Live = True,
            EstTokens = 1, ContextID = ''c'', ResponseID = None\<rparr>"
          "\<lparr>ID = 2, Timestamp = 2, Source = ModelResp, Content = ''Hi there'', Live = True,
            EstTokens = 2, ContextID = ''c'', ResponseID = Some ''resp_123''\<rparr>"
          "''resp_123''"
          "\<lparr>ID = 3, Timestamp = 3, Source = Prompt, Content = ''How are you?'', Live = True,
            EstTokens = 4, ContextID = ''c'', ResponseID = None\<rparr>"
          "\<lparr>ID = 4, Timestamp = 4, Source = ToolCall, Content = ''some_tool({})'',
            Live = True, EstTokens = 3, ContextID = ''c'', ResponseID = None\<rparr>"
          "[\<lparr>ID = 1, Timestamp = 1, Source = Prompt, Content = ''Hello'', Live = True,
            EstTokens = 1, ContextID = ''c'', ResponseID = None\<rparr>]"
          "[\<lparr>ID = 2, Timestamp = 2, Source = ModelResp, Content = ''Hi there'', Live = True,
            EstTokens = 2, ContextID = ''c'', ResponseID = Some ''resp_123''\<rparr>]"]
    C1_threading_eligibility
      [of _ _ _ _ _ _ "[]" "[]"
          "\<lparr>ID = 2, Timestamp = 2, Source = ModelResp, Content = ''Fine'', Live = True,
            EstTokens = 1, ContextID = ''c'', ResponseID = None\<rparr>"
          "\<lparr>ID = 3, Timestamp = 3, Source = ModelResp, Content = ''Yes'', Live = True,
            EstTokens = 1, ContextID = ''c'', ResponseID = Some ''resp_456''\<rparr>"
          "''resp_456''" "[]"]
  by simp

section \<open>Store and session: auxiliary facts\<close>

lemmas io_defs = ret_def fail_def thenE_def stmt_def queryRow_def query_def exec_def

lemma getContextIDByName_eq:
  "getContextIDByName name db =
     ((if fails db (stmts db) then Inl ErrStorage
       else case find (\<lambda>c. Name c = name) (contexts db) of
              None \<Rightarrow> Inl ErrNoRows | Some c \<Rightarrow> Inr (CtxID c)),
      db\<lparr>stmts := Suc (stmts db)\<rparr>)"
  by (simp add: getContextIDByName_def io_defs split: option.splits)

lemma GetContext_eq:
  "GetContext contextID db =
     ((if fails db (stmts db) then Inl ErrStorage
       else case find (\<lambda>c. CtxID c = contextID) (contexts db) of
              None \<Rightarrow> Inl ErrNoRows | Some c \<Rightarrow> Inr c),
      db\<lparr>stmts := Suc (stmts db)\<rparr>)"
  by (simp add: GetContext_def io_defs split: option.splits)

lemma GetContextByName_eq:
  "GetContextByName name db =
     ((if fails db (stmts db) then Inl ErrStorage
       else case find (\<lambda>c. Name c = name) (contexts db) of
              None \<Rightarrow> Inl ErrNoRows | Some c \<Rightarrow> Inr c),
      db\<lparr>stmts := Suc (stmts db)\<rparr>)"
  by (simp add: GetContextByName_def io_defs split: option.splits)

lemma listRecordsWhere_eq:
  "listRecordsWhere P db =
     ((if fails db (stmts db) then Inl ErrStorage
       else Inr (sort_key Timestamp (filter P (records db)))),
      db\<lparr>stmts := Suc (stmts db)\<rparr>)"
  by (simp add: listRecordsWhere_def io_defs)

lemma ListLiveRecords_eq:
  "ListLiveRecords cid db =
     ((if fails db (stmts db) then Inl ErrStorage
       else Inr (sort_key Timestamp (filter (\<lambda>r. ContextID r = cid \<and> Live r) (records db)))),
      db\<lparr>stmts := Suc (stmts db)\<rparr>)"
  by (simp add: ListLiveRecords_def listRecordsWhere_eq)

lemma ListLiveRecords_Inr:
  "ListLiveRecords cid db = (Inr rs, d) \<Longrightarrow>
     rs = sort_key Timestamp (filter (\<lambda>r. ContextID r = cid \<and> Live r) (records db))"
  by (auto simp: ListLiveRecords_def listRecordsWhere_eq split: if_splits)

lemma ListRecordsInContext_Inr:
  "ListRecordsInContext cid db = (Inr rs, d) \<Longrightarrow>
     rs = sort_key Timestamp (filter (\<lambda>r. ContextID r = cid) (records db))"
  by (auto simp: ListRecordsInContext_def listRecordsWhere_eq split: if_splits)

lemma InsertRecordWithResponseID_eq:
  "InsertRecordWithResponseID tc cid src content live rid now db =
     (if fails db (stmts db) then (Inl ErrStorage, db\<lparr>stmts := Suc (stmts db)\<rparr>)
      else (Inr \<lparr>ID = next_id db, Timestamp = now, Source = src, Content = content,
                Live = live, EstTokens = tc content, ContextID = cid, ResponseID = rid\<rparr>,
            db\<lparr>stmts := Suc (stmts db),
               records := records db @ [\<lparr>ID = next_id db, Timestamp = now, Source = src, Content = content,
                Live = live, EstTokens = tc content, ContextID = cid, ResponseID = rid\<rparr>],
               next_id := next_id db + 1\<rparr>))"
  by (simp add: InsertRecordWithResponseID_def io_defs Let_def)

lemma SetContextServerSideThreading_eq:
  "SetContextServerSideThreading i b db =
     (if fails db (stmts db) then (Inl ErrStorage, db\<lparr>stmts := Suc (stmts db)\<rparr>)
      else (Inr (), db\<lparr>stmts := Suc (stmts db),
                         contexts := map (\<lambda>c. if CtxID c = i then c\<lparr>UseServerSideThreading := b\<rparr> else c) (contexts db)\<rparr>))"
  by (simp add: SetContextServerSideThreading_def io_defs)

lemma UpdateContextLastResponseID_eq:
  "UpdateContextLastResponseID i rid db =
     (if fails db (stmts db) then (Inl ErrStorage, db\<lparr>stmts := Suc (stmts db)\<rparr>)
      else (Inr (), db\<lparr>stmts := Suc (stmts db),
                         contexts := map (\<lambda>c. if CtxID c = i then c\<lparr>LastResponseID := Some rid\<rparr> else c) (contexts db)\<rparr>))"
  by (simp add: UpdateContextLastResponseID_def io_defs)

lemma markRecordNotAlive_eq:
  "markRecordNotAlive i tx =
     (if fails tx (stmts tx) then (Inl ErrStorage, tx\<lparr>stmts := Suc (stmts tx)\<rparr>)
      else (Inr (), tx\<lparr>stmts := Suc (stmts tx),
                        records := map (\<lambda>r. if ID r = i then r\<lparr>Live := False\<rparr> else r) (records tx)\<rparr>))"
  by (simp add: markRecordNotAlive_def io_defs)

lemma transaction_atomic:
  "transaction body db = (Inl e, db') \<Longrightarrow>
     contexts db' = contexts db \<and> records db' = records db \<and> next_id db' = next_id db \<and> fails db' = fails db"
  by (auto simp: transaction_def stmt_def split: if_splits prod.splits sum.splits)

lemmas demo_defs = demoDB_def demoContext_def demoWindow_def stubModel_def charCount_def reply_def

lemma demoDB_sel:
  "contexts demoDB = [demoContext]" "records demoDB = []" "next_id demoDB = 1"
  "stmts demoDB = 0" "fails demoDB = (\<lambda>n. False)"
  by (simp_all add: demoDB_def)

section \<open>Listing live records\<close>

text \<open>
  Every row takes its timestamp from the clock when it is inserted, and no operation
  changes a timestamp afterwards. The listing orders by timestamp, the table is in
  insertion order. The two orders agree as long as no insert reads a clock behind the
  rows already there (\<open>insert_keeps_timestamps_sorted\<close>); nothing in the store enforces
  that.
\<close>

lemma filter_ctx_live:
  "filter (\<lambda>r. ContextID r = cid \<and> Live r) xs = filter Live (filter (\<lambda>r. ContextID r = cid) xs)"
  by (induction xs) auto

lemma insert_keeps_timestamps_sorted:
  assumes "InsertRecordWithResponseID tc cid src content live rid now db = (Inr r, db')"
      and "sorted (map Timestamp (filter (\<lambda>r. ContextID r = c) (records db)))"
      and "\<forall>x\<in>set (records db). ContextID x = c \<longrightarrow> Timestamp x \<le> now"
  shows "sorted (map Timestamp (filter (\<lambda>r. ContextID r = c) (records db')))"
  using assms
  by (auto simp: InsertRecordWithResponseID_eq sorted_append split: if_splits)

text \<open>
  The listing is not in insertion order for every store. In \<open>retreatingClockDB\<close> the
  record ''first'' was inserted before the record ''second'', both are live and in the same
  context, and the clock read 20 and then 10. The timestamps stored for the context are
  not non-decreasing in insertion order, and \<open>ListLiveRecords\<close> returns ''second'' before
  ''first''.
\<close>

theorem C8_insertion_order_counterexample:
  "records retreatingClockDB =
     [\<lparr>ID = 1, Timestamp = 20, Source = Prompt, Content = ''first'', Live = True,
       EstTokens = 5, ContextID = ''id-demo'', ResponseID = None\<rparr>,
      \<lparr>ID = 2, Timestamp = 10, Source = Prompt, Content = ''second'', Live = True,
       EstTokens = 6, ContextID = ''id-demo'', ResponseID = None\<rparr>]
   \<and> \<not> sorted (map Timestamp (records retreatingClockDB))
   \<and> fst (ListLiveRecords ''id-demo'' retreatingClockDB) =
     Inr [\<lparr>ID = 2, Timestamp = 10, Source = Prompt, Content = ''second'', Live = True,
           EstTokens = 6, ContextID = ''id-demo'', ResponseID = None\<rparr>,
          \<lparr>ID = 1, Timestamp = 20, Source = Prompt, Content = ''first'', Live = True,
           EstTokens = 5, ContextID = ''id-demo'', ResponseID = None\<rparr>]
   \<and> fst (ListLiveRecords ''id-demo'' retreatingClockDB) \<noteq> Inr (records retreatingClockDB)"
  by (simp add: retreatingClockDB_def InsertRecord_def InsertRecordWithResponseID_eq
        ListLiveRecords_eq demo_defs)

text \<open>
  Claim C8, amended. For every context identifier, \<open>ListLiveRecords\<close> succeeds unless the
  store fails the statement, and what it returns is exactly the rows of that context with
  \<open>Live\<close> set (each once), in non-decreasing order of timestamp. Rows are stored in
  insertion order, and the result is the live rows in insertion order exactly when the
  timestamps of the context's live rows are non-decreasing in insertion order; that is
  the case whenever the timestamps of all rows of the context are.
\<close>

theorem C8_list_live_records:
  "(\<not> fails db (stmts db) \<longrightarrow> (\<exists>rs db'. ListLiveRecords contextID db = (Inr rs, db')))
   \<and> (\<forall>rs db'. ListLiveRecords contextID db = (Inr rs, db') \<longrightarrow>
         mset rs = mset (filter (\<lambda>r. ContextID r = contextID \<and> Live r) (records db))
       \<and> sorted (map Timestamp rs)
       \<and> (rs = filter (\<lambda>r. ContextID r = contextID \<and> Live r) (records db) \<longleftrightarrow>
            sorted (map Timestamp (filter (\<lambda>r. ContextID r = contextID \<and> Live r) (records db))))
       \<and> (sorted (map Timestamp (filter (\<lambda>r. ContextID r = contextID) (records db))) \<longrightarrow>
            rs = filter (\<lambda>r. ContextID r = contextID \<and> Live r) (records db)))"
proof -
  let ?live = "filter (\<lambda>r. ContextID r = contextID \<and> Live r) (records db)"
  have id_iff: "sort_key Timestamp ?live = ?live \<longleftrightarrow> sorted (map Timestamp ?live)"
  proof
    assume "sort_key Timestamp ?live = ?live"
    then have "map Timestamp ?live = map Timestamp (sort_key Timestamp ?live)"
      by simp
    then show "sorted (map Timestamp ?live)"
      by (simp only: sorted_sort_key)
  next
    assume "sorted (map Timestamp ?live)"
    then show "sort_key Timestamp ?live = ?live"
      by (rule sort_key_id_if_sorted)
  qed
  have all: "sorted (map Timestamp ?live)"
    if "sorted (map Timestamp (filter (\<lambda>r. ContextID r = contextID) (records db)))"
  proof -
    from that have "sorted (map Timestamp (filter Live (filter (\<lambda>r. ContextID r = contextID) (records db))))"
      by (rule sorted_filter)
    then show ?thesis
      by (simp only: filter_ctx_live)
  qed
  from id_iff all show ?thesis
    by (auto simp add: ListLiveRecords_eq)
qed

theorem C8_list_live_records_witness:
  "\<not> fails (demoDB\<lparr>records :=
       [\<lparr>ID = 1, Timestamp = 10, Source = Prompt, Content = ''hello'', Live = True,
         EstTokens = 5, ContextID = ''id-demo'', ResponseID = None\<rparr>,
        \<lparr>ID = 2, Timestamp = 20, Source = SystemPrompt, Content = ''old'', Live = False,
         EstTokens = 3, ContextID = ''id-demo'', ResponseID = None\<rparr>,
        \<lparr>ID = 3, Timestamp = 20, Source = Prompt, Content = ''elsewhere'', Live = True,
         EstTokens = 9, ContextID = ''id-other'', ResponseID = None\<rparr>,
        \<lparr>ID = 4, Timestamp = 30, Source = ModelResp, Content = ''hi'', Live = True,
         EstTokens = 2, ContextID = ''id-demo'', ResponseID = None\<rparr>]\<rparr>) 0
   \<and> ListLiveRecords ''id-demo'' (demoDB\<lparr>records :=
       [\<lparr>ID = 1, Timestamp = 10, Source = Prompt, Content = ''hello'', Live = True,
         EstTokens = 5, ContextID = ''id-demo'', ResponseID = None\<rparr>,
        \<lparr>ID = 2, Timestamp = 20, Source = SystemPrompt, Content = ''old'', Live = False,
         EstTokens = 3, ContextID = ''id-demo'', ResponseID = None\<rparr>,
        \<lparr>ID = 3, Timestamp = 20, Source = Prompt, Content = ''elsewhere'', Live = True,
         EstTokens = 9, ContextID = ''id-other'', ResponseID = None\<rparr>,
        \<lparr>ID = 4, Timestamp = 30, Source = ModelResp, Content = ''hi'', Live = True,
         EstTokens = 2, ContextID = ''id-demo'', ResponseID = None\<rparr>]\<rparr>) =
     (Inr [\<lparr>ID = 1, Timestamp = 10, Source = Prompt, Content = ''hello'', Live = True,
            EstTokens = 5, ContextID = ''id-demo'', ResponseID = None\<rparr>,
           \<lparr>ID = 4, Timestamp = 30, Source = ModelResp, Content = ''hi'', Live = True,
            EstTokens = 2, ContextID = ''id-demo'', ResponseID = None\<rparr>],
      demoDB\<lparr>records :=
       [\<lparr>ID = 1, Timestamp = 10, Source = Prompt, Content = ''hello'', Live = True,
         EstTokens = 5, ContextID = ''id-demo'', ResponseID = None\<rparr>,
        \<lparr>ID = 2, Timestamp = 20, Source = SystemPrompt, Content = ''old'', Live = False,
         EstTokens = 3, ContextID = ''id-demo'', ResponseID = None\<rparr>,
        \<lparr>ID = 3, Timestamp = 20, Source = Prompt, Content = ''elsewhere'', Live = True,
         EstTokens = 9, ContextID = ''id-other'', ResponseID = None\<rparr>,
        \<lparr>ID = 4, Timestamp = 30, Source = ModelResp, Content = ''hi'', Live = True,
         EstTokens = 2, ContextID = ''id-demo'', ResponseID = None\<rparr>], stmts := 1\<rparr>)"
  using C8_list_live_records [of "demoDB\<lparr>records :=
       [\<lparr>ID = 1, Timestamp = 10, Source = Prompt, Content = ''hello'', Live = True,
         EstTokens = 5, ContextID = ''id-demo'', ResponseID = None\<rparr>,
        \<lparr>ID = 2, Timestamp = 20, Source = SystemPrompt, Content = ''old'', Live = False,
         EstTokens = 3, ContextID = ''id-demo'', ResponseID = None\<rparr>,
        \<lparr>ID = 3, Timestamp = 20, Source = Prompt, Content = ''elsewhere'', Live = True,
         EstTokens = 9, ContextID = ''id-other'', ResponseID = None\<rparr>,
        \<lparr>ID = 4, Timestamp = 30, Source = ModelResp, Content = ''hi'', Live = True,
         EstTokens = 2, ContextID = ''id-demo'', ResponseID = None\<rparr>]\<rparr>" "''id-demo''"]
  by (simp add: ListLiveRecords_eq demo_defs)

section \<open>Get-or-create of a context\<close>

lemma find_map_upd:
  "find (\<lambda>c. Name c = name) (map (\<lambda>c. if CtxID c = i then c\<lparr>UseServerSideThreading := b\<rparr> else c) cs)
   = map_option (\<lambda>c. if CtxID c = i then c\<lparr>UseServerSideThreading := b\<rparr> else c) (find (\<lambda>c. Name c = name) cs)"
  by (induction cs) auto

lemma find_append_new:
  "find P xs = None \<Longrightarrow> find P (xs @ [x]) = (if P x then Some x else None)"
  by (induction xs) (auto split: if_splits)

lemma Create_first:
  assumes "CreateContextWithThreading name sst id1 now1 db = (Inr c1, db1)"
  shows "find (\<lambda>c. Name c = name) (contexts db1) = Some c1 \<and> UseServerSideThreading c1 = sst \<and> name \<noteq> []"
  using assms
  by (auto simp: CreateContextWithThreading_def GetContextByName_eq SetContextServerSideThreading_eq
      find_map_upd find_append_new thenE_def stmt_def Let_def
      split: if_splits option.splits dest: find_Some_member)

lemma Create_existing:
  assumes "find (\<lambda>c. Name c = name) (contexts db) = Some c" "UseServerSideThreading c = sst" "name \<noteq> []"
  shows "CreateContextWithThreading name sst id2 now2 db =
          (if fails db (stmts db) then Inl ErrStorage else Inr c, db\<lparr>stmts := Suc (stmts db)\<rparr>)"
  using assms
  by (simp add: CreateContextWithThreading_def GetContextByName_eq)

text \<open>
  Claim C9. After a successful \<open>CreateContextWithThreading\<close> for a name and a threading
  mode, a second call with the same name and mode (whatever fresh identifier and clock
  reading it draws) succeeds unless the store fails its one statement, returns the very
  same context, hence the same identity, and leaves the table of contexts as it was: no
  row is added.
\<close>

theorem C9_get_or_create_idempotent:
  assumes "CreateContextWithThreading name sst id1 now1 db = (Inr c1, db1)"
  shows "(\<not> fails db1 (stmts db1) \<longrightarrow>
            (\<exists>c2 db2. CreateContextWithThreading name sst id2 now2 db1 = (Inr c2, db2)))
       \<and> (\<forall>c2 db2. CreateContextWithThreading name sst id2 now2 db1 = (Inr c2, db2) \<longrightarrow>
            CtxID c2 = CtxID c1 \<and> c2 = c1 \<and> contexts db2 = contexts db1)
       \<and> (\<forall>r db2. CreateContextWithThreading name sst id2 now2 db1 = (r, db2) \<longrightarrow>
            contexts db2 = contexts db1)"
  using Create_first [OF assms]
  by (auto simp: Create_existing split: if_splits)

theorem C9_get_or_create_idempotent_witness:
  "CreateContextWithThreading ''notes'' True ''id-notes'' 7 demoDB =
     (Inr \<lparr>CtxID = ''id-notes'', Name = ''notes'', StartTime = 7,
           UseServerSideThreading = True, LastResponseID = None\<rparr>,
      demoDB\<lparr>stmts := 2,
         contexts := [demoContext,
                      \<lparr>CtxID = ''id-notes'', Name = ''notes'', StartTime = 7,
                       UseServerSideThreading = True, LastResponseID = None\<rparr>]\<rparr>)
   \<and> CreateContextWithThreading ''notes'' True ''id-other'' 9
       (demoDB\<lparr>stmts := 2,
         contexts := [demoContext,
                      \<lparr>CtxID = ''id-notes'', Name = ''notes'', StartTime = 7,
                       UseServerSideThreading = True, LastResponseID = None\<rparr>]\<rparr>) =
     (Inr \<lparr>CtxID = ''id-notes'', Name = ''notes'', StartTime = 7,
           UseServerSideThreading = True, LastResponseID = None\<rparr>,
      demoDB\<lparr>stmts := 3,
         contexts := [demoContext,
                      \<lparr>CtxID = ''id-notes'', Name = ''notes'', StartTime = 7,
                       UseServerSideThreading = True, LastResponseID = None\<rparr>]\<rparr>)"
  using C9_get_or_create_idempotent [of "''notes''" True "''id-notes''" 7 demoDB
      "\<lparr>CtxID = ''id-notes'', Name = ''notes'', StartTime = 7,
           UseServerSideThreading = True, LastResponseID = None\<rparr>"
      "demoDB\<lparr>stmts := 2,
         contexts := [demoContext,
                      \<lparr>CtxID = ''id-notes'', Name = ''notes'', StartTime = 7,
                       UseServerSideThreading = True, LastResponseID = None\<rparr>]\<rparr>"
      "''id-other''" 9]
  by (simp add: CreateContextWithThreading_def GetContextByName_eq thenE_def stmt_def Let_def demo_defs)

section \<open>Replacing the system prompt\<close>

lemma SetSystemPrompt_atomic:
  "SetSystemPrompt tc cw text now db = (Inl e, db') \<Longrightarrow>
     contexts db' = contexts db \<and> records db' = records db \<and> next_id db' = next_id db"
  by (auto simp: SetSystemPrompt_def thenE_def getContextIDByName_eq
      split: if_splits prod.splits sum.splits option.splits dest!: transaction_atomic)

lemma SetSystemPrompt_success:
  assumes "SetSystemPrompt tc cw text now db = (Inr u, db')"
  shows "\<exists>c. find (\<lambda>c. Name c = currentContext cw) (contexts db) = Some c \<and>
           db' = db\<lparr>stmts := stmts db + 5,
                    records := map (\<lambda>r. if ContextID r = CtxID c \<and> Source r = SystemPrompt
                                          then r\<lparr>Live := False\<rparr> else r) (records db) @
                      [\<lparr>ID = next_id db, Timestamp = now, Source = SystemPrompt, Content = text,
                        Live = True, EstTokens = tc text, ContextID = CtxID c, ResponseID = None\<rparr>],
                    next_id := next_id db + 1\<rparr>"
  using assms
  by (auto simp: SetSystemPrompt_def getContextIDByName_eq transaction_def insertRecordTx_def
      insertRecordTxWithResponseID_def io_defs Let_def
      split: if_splits prod.splits sum.splits option.splits)

lemma retire_no_live_sys:
  "filter (\<lambda>r. ContextID r = cid \<and> Source r = SystemPrompt \<and> Live r)
     (map (\<lambda>r. if ContextID r = cid \<and> Source r = SystemPrompt then r\<lparr>Live := False\<rparr> else r) xs) = []"
  by (induction xs) auto

lemma retire_other_ctx:
  "cid' \<noteq> cid \<Longrightarrow>
   filter (\<lambda>r. ContextID r = cid' \<and> Source r = SystemPrompt \<and> Live r)
     (map (\<lambda>r. if ContextID r = cid \<and> Source r = SystemPrompt then r\<lparr>Live := False\<rparr> else r) xs)
   = filter (\<lambda>r. ContextID r = cid' \<and> Source r = SystemPrompt \<and> Live r) xs"
  by (induction xs) auto

lemma SetSystemPrompt_one_live:
  assumes "SetSystemPrompt tc cw text now db = (Inr u, db')"
  shows "\<exists>c. find (\<lambda>c. Name c = currentContext cw) (contexts db) = Some c \<and>
          contexts db' = contexts db \<and>
          filter (\<lambda>r. ContextID r = CtxID c \<and> Source r = SystemPrompt \<and> Live r) (records db')
            = [\<lparr>ID = next_id db, Timestamp = now, Source = SystemPrompt, Content = text,
                Live = True, EstTokens = tc text, ContextID = CtxID c, ResponseID = None\<rparr>] \<and>
          (\<forall>cid'. cid' \<noteq> CtxID c \<longrightarrow>
             filter (\<lambda>r. ContextID r = cid' \<and> Source r = SystemPrompt \<and> Live r) (records db')
             = filter (\<lambda>r. ContextID r = cid' \<and> Source r = SystemPrompt \<and> Live r) (records db))"
proof -
  from SetSystemPrompt_success [OF assms] obtain c where
    c: "find (\<lambda>c. Name c = currentContext cw) (contexts db) = Some c" and
    db': "db' = db\<lparr>stmts := stmts db + 5,
                    records := map (\<lambda>r. if ContextID r = CtxID c \<and> Source r = SystemPrompt
                                          then r\<lparr>Live := False\<rparr> else r) (records db) @
                      [\<lparr>ID = next_id db, Timestamp = now, Source = SystemPrompt, Content = text,
                        Live = True, EstTokens = tc text, ContextID = CtxID c, ResponseID = None\<rparr>],
                    next_id := next_id db + 1\<rparr>"
    by blast
  show ?thesis
    using c by (simp add: db' retire_no_live_sys retire_other_ctx)
qed

lemma filter_sys_live:
  "filter (\<lambda>r. Source r = SystemPrompt) (filter (\<lambda>r. ContextID r = cid \<and> Live r) xs) =
   filter (\<lambda>r. ContextID r = cid \<and> Source r = SystemPrompt \<and> Live r) xs"
  by (induction xs) auto

lemma SetSystemPrompt_twice:
  assumes "SetSystemPrompt tc cw t1 n1 db = (Inr u1, db1)"
      and "SetSystemPrompt tc cw t2 n2 db1 = (Inr u2, db2)"
  shows "\<exists>c. find (\<lambda>c. Name c = currentContext cw) (contexts db) = Some c \<and>
          records db2 =
      map (\<lambda>r. if ContextID r = CtxID c \<and> Source r = SystemPrompt then r\<lparr>Live := False\<rparr> else r)
        (map (\<lambda>r. if ContextID r = CtxID c \<and> Source r = SystemPrompt then r\<lparr>Live := False\<rparr> else r)
           (records db)) @
        [\<lparr>ID = next_id db, Timestamp = n1, Source = SystemPrompt, Content = t1,
               Live = False, EstTokens = tc t1, ContextID = CtxID c, ResponseID = None\<rparr>,
         \<lparr>ID = next_id db + 1, Timestamp = n2, Source = SystemPrompt, Content = t2,
               Live = True, EstTokens = tc t2, ContextID = CtxID c, ResponseID = None\<rparr>]"
proof -
  from SetSystemPrompt_success [OF assms(1)] obtain c where
    c: "find (\<lambda>c. Name c = currentContext cw) (contexts db) = Some c" and
    db1: "db1 = db\<lparr>stmts := stmts db + 5,
                    records := map (\<lambda>r. if ContextID r = CtxID c \<and> Source r = SystemPrompt
                                          then r\<lparr>Live := False\<rparr> else r) (records db) @
                      [\<lparr>ID = next_id db, Timestamp = n1, Source = SystemPrompt, Content = t1,
                        Live = True, EstTokens = tc t1, ContextID = CtxID c, ResponseID = None\<rparr>],
                    next_id := next_id db + 1\<rparr>"
    by blast
  from SetSystemPrompt_success [OF assms(2)] obtain c' where
    c': "find (\<lambda>c. Name c = currentContext cw) (contexts db1) = Some c'" and
    db2: "db2 = db1\<lparr>stmts := stmts db1 + 5,
                    records := map (\<lambda>r. if ContextID r = CtxID c' \<and> Source r = SystemPrompt
                                          then r\<lparr>Live := False\<rparr> else r) (records db1) @
                      [\<lparr>ID = next_id db1, Timestamp = n2, Source = SystemPrompt, Content = t2,
                        Live = True, EstTokens = tc t2, ContextID = CtxID c', ResponseID = None\<rparr>],
                    next_id := next_id db1 + 1\<rparr>"
    by blast
  have cc: "c' = c" using c c' by (simp add: db1)
  have "records db2 =
      map (\<lambda>r. if ContextID r = CtxID c \<and> Source r = SystemPrompt then r\<lparr>Live := False\<rparr> else r)
        (map (\<lambda>r. if ContextID r = CtxID c \<and> Source r = SystemPrompt then r\<lparr>Live := False\<rparr> else r)
           (records db)) @
        [\<lparr>ID = next_id db, Timestamp = n1, Source = SystemPrompt, Content = t1,
               Live = False, EstTokens = tc t1, ContextID = CtxID c, ResponseID = None\<rparr>,
         \<lparr>ID = next_id db + 1, Timestamp = n2, Source = SystemPrompt, Content = t2,
               Live = True, EstTokens = tc t2, ContextID = CtxID c, ResponseID = None\<rparr>]"
    by (simp add: db2 db1 cc)
  with c show ?thesis by blast
qed

lemma SetSystemPrompt_twice_live:
  assumes "SetSystemPrompt tc cw t1 n1 db = (Inr u1, db1)"
      and "SetSystemPrompt tc cw t2 n2 db1 = (Inr u2, db2)"
  shows "\<exists>c. find (\<lambda>c. Name c = currentContext cw) (contexts db) = Some c \<and>
          filter (\<lambda>r. ContextID r = CtxID c \<and> Source r = SystemPrompt \<and> Live r) (records db2) =
            [\<lparr>ID = next_id db + 1, Timestamp = n2, Source = SystemPrompt, Content = t2,
               Live = True, EstTokens = tc t2, ContextID = CtxID c, ResponseID = None\<rparr>] \<and>
          \<lparr>ID = next_id db, Timestamp = n1, Source = SystemPrompt, Content = t1,
               Live = False, EstTokens = tc t1, ContextID = CtxID c, ResponseID = None\<rparr>
            \<in> set (filter (\<lambda>r. ContextID r = CtxID c) (records db2)) \<and>
          \<lparr>ID = next_id db + 1, Timestamp = n2, Source = SystemPrompt, Content = t2,
               Live = True, EstTokens = tc t2, ContextID = CtxID c, ResponseID = None\<rparr>
            \<in> set (filter (\<lambda>r. ContextID r = CtxID c) (records db2))"
proof -
  from SetSystemPrompt_twice [OF assms] obtain c where
    c: "find (\<lambda>c. Name c = currentContext cw) (contexts db) = Some c" and
    recs: "records db2 =
      map (\<lambda>r. if ContextID r = CtxID c \<and> Source r = SystemPrompt then r\<lparr>Live := False\<rparr> else r)
        (map (\<lambda>r. if ContextID r = CtxID c \<and> Source r = SystemPrompt then r\<lparr>Live := False\<rparr> else r)
           (records db)) @
        [\<lparr>ID = next_id db, Timestamp = n1, Source = SystemPrompt, Content = t1,
               Live = False, EstTokens = tc t1, ContextID = CtxID c, ResponseID = None\<rparr>,
         \<lparr>ID = next_id db + 1, Timestamp = n2, Source = SystemPrompt, Content = t2,
               Live = True, EstTokens = tc t2, ContextID = CtxID c, ResponseID = None\<rparr>]"
    by blast
  have one: "filter (\<lambda>r. ContextID r = CtxID c \<and> Source r = SystemPrompt \<and> Live r) (records db2) =
            [\<lparr>ID = next_id db + 1, Timestamp = n2, Source = SystemPrompt, Content = t2,
               Live = True, EstTokens = tc t2, ContextID = CtxID c, ResponseID = None\<rparr>]"
    by (simp add: recs retire_no_live_sys del: map_map)
  have both: "\<lparr>ID = next_id db, Timestamp = n1, Source = SystemPrompt, Content = t1,
               Live = False, EstTokens = tc t1, ContextID = CtxID c, ResponseID = None\<rparr>
            \<in> set (filter (\<lambda>r. ContextID r = CtxID c) (records db2))"
     "\<lparr>ID = next_id db + 1, Timestamp = n2, Source = SystemPrompt, Content = t2,
               Live = True, EstTokens = tc t2, ContextID = CtxID c, ResponseID = None\<rparr>
            \<in> set (filter (\<lambda>r. ContextID r = CtxID c) (records db2))"
    by (simp_all add: recs del: map_map)
  from c one both show ?thesis by blast
qed

lemma SetSystemPrompt_keeps_invariant:
  assumes "SetSystemPrompt tc cw t1 n1 db = (Inr u1, db1)"
      and "\<forall>cid. length (filter (\<lambda>r. ContextID r = cid \<and> Source r = SystemPrompt \<and> Live r)
                          (records db)) \<le> 1"
  shows "length (filter (\<lambda>r. ContextID r = cid \<and> Source r = SystemPrompt \<and> Live r)
                          (records db1)) \<le> 1"
proof -
  from SetSystemPrompt_one_live [OF assms(1)] obtain c where
    k: "find (\<lambda>c. Name c = currentContext cw) (contexts db) = Some c \<and>
          contexts db1 = contexts db \<and>
          filter (\<lambda>r. ContextID r = CtxID c \<and> Source r = SystemPrompt \<and> Live r) (records db1)
            = [\<lparr>ID = next_id db, Timestamp = n1, Source = SystemPrompt, Content = t1,
                Live = True, EstTokens = tc t1, ContextID = CtxID c, ResponseID = None\<rparr>] \<and>
          (\<forall>cid'. cid' \<noteq> CtxID c \<longrightarrow>
             filter (\<lambda>r. ContextID r = cid' \<and> Source r = SystemPrompt \<and> Live r) (records db1)
             = filter (\<lambda>r. ContextID r = cid' \<and> Source r = SystemPrompt \<and> Live r) (records db))" ..
  note one = k [THEN conjunct2, THEN conjunct2, THEN conjunct1]
  note other = k [THEN conjunct2, THEN conjunct2, THEN conjunct2, rule_format]
  show ?thesis
  proof (cases "cid = CtxID c")
    case True
    show ?thesis unfolding True one by simp
  next
    case False
    show ?thesis unfolding other [OF False] by (rule assms(2) [rule_format])
  qed
qed

lemma eval_SetSystemPrompt1:
  "SetSystemPrompt charCount (demoWindow (stubModel [] 0)) ''be brief'' 10 demoDB =
     (Inr (),
      demoDB\<lparr>stmts := 5,
         records := [\<lparr>ID = 1, Timestamp = 10, Source = SystemPrompt, Content = ''be brief'',
                      Live = True, EstTokens = 8, ContextID = ''id-demo'', ResponseID = None\<rparr>],
         next_id := 2\<rparr>)"
  by (simp add: SetSystemPrompt_def getContextIDByName_eq transaction_def insertRecordTx_def
      insertRecordTxWithResponseID_def io_defs Let_def demo_defs)

lemma eval_SetSystemPrompt2:
  "SetSystemPrompt charCount (demoWindow (stubModel [] 0)) ''be kind'' 20
     (demoDB\<lparr>stmts := 5,
         records := [\<lparr>ID = 1, Timestamp = 10, Source = SystemPrompt, Content = ''be brief'',
                      Live = True, EstTokens = 8, ContextID = ''id-demo'', ResponseID = None\<rparr>],
         next_id := 2\<rparr>) =
     (Inr (),
      demoDB\<lparr>stmts := 10,
         records := [\<lparr>ID = 1, Timestamp = 10, Source = SystemPrompt, Content = ''be brief'',
                      Live = False, EstTokens = 8, ContextID = ''id-demo'', ResponseID = None\<rparr>,
                     \<lparr>ID = 2, Timestamp = 20, Source = SystemPrompt, Content = ''be kind'',
                      Live = True, EstTokens = 7, ContextID = ''id-demo'', ResponseID = None\<rparr>],
         next_id := 3\<rparr>)"
  by (simp add: SetSystemPrompt_def getContextIDByName_eq transaction_def insertRecordTx_def
      insertRecordTxWithResponseID_def io_defs Let_def demo_defs)

text \<open>
  Claim C4. When \<open>SetSystemPrompt\<close> succeeds twice in a row on the same session, the
  context named by the session has exactly one live system-prompt row, the one of the
  second call; among the live records the only system prompt is that row; the row of
  the first call is still listed by \<open>ListRecordsInContext\<close>, now not live, beside the
  second. A call that fails leaves the tables as they were (retiring and inserting are
  one transaction), and a call that succeeds keeps the invariant that every context
  has at most one live system-prompt row.
\<close>

theorem C4_system_prompt_twice:
  "(\<forall>u1 db1 u2 db2.
      SetSystemPrompt tc cw t1 n1 db = (Inr u1, db1) \<and>
      SetSystemPrompt tc cw t2 n2 db1 = (Inr u2, db2) \<longrightarrow>
      (\<exists>c.
         find (\<lambda>c. Name c = currentContext cw) (contexts db) = Some c \<and>
         filter (\<lambda>r. ContextID r = CtxID c \<and> Source r = SystemPrompt \<and> Live r) (records db2) =
           [\<lparr>ID = next_id db + 1, Timestamp = n2, Source = SystemPrompt, Content = t2,
             Live = True, EstTokens = tc t2, ContextID = CtxID c, ResponseID = None\<rparr>] \<and>
         (\<forall>rs d. ListLiveRecords (CtxID c) db2 = (Inr rs, d) \<longrightarrow>
            filter (\<lambda>r. Source r = SystemPrompt) rs =
              [\<lparr>ID = next_id db + 1, Timestamp = n2, Source = SystemPrompt, Content = t2,
                Live = True, EstTokens = tc t2, ContextID = CtxID c, ResponseID = None\<rparr>]) \<and>
         (\<forall>rs d. ListRecordsInContext (CtxID c) db2 = (Inr rs, d) \<longrightarrow>
            \<lparr>ID = next_id db, Timestamp = n1, Source = SystemPrompt, Content = t1,
              Live = False, EstTokens = tc t1, ContextID = CtxID c, ResponseID = None\<rparr> \<in> set rs \<and>
            \<lparr>ID = next_id db + 1, Timestamp = n2, Source = SystemPrompt, Content = t2,
              Live = True, EstTokens = tc t2, ContextID = CtxID c, ResponseID = None\<rparr> \<in> set rs)))
   \<and> (\<forall>e db1. SetSystemPrompt tc cw t1 n1 db = (Inl e, db1) \<longrightarrow>
         contexts db1 = contexts db \<and> records db1 = records db \<and> next_id db1 = next_id db)
   \<and> (\<forall>u1 db1. SetSystemPrompt tc cw t1 n1 db = (Inr u1, db1) \<and>
         (\<forall>cid. length (filter (\<lambda>r. ContextID r = cid \<and> Source r = SystemPrompt \<and> Live r)
                          (records db)) \<le> 1) \<longrightarrow>
         (\<forall>cid. length (filter (\<lambda>r. ContextID r = cid \<and> Source r = SystemPrompt \<and> Live r)
                          (records db1)) \<le> 1))"
proof (intro conjI allI impI)
  fix u1 db1 u2 db2
  assume a: "SetSystemPrompt tc cw t1 n1 db = (Inr u1, db1) \<and>
      SetSystemPrompt tc cw t2 n2 db1 = (Inr u2, db2)"
  have a1: "SetSystemPrompt tc cw t1 n1 db = (Inr u1, db1)" using a by (rule conjunct1)
  have a2: "SetSystemPrompt tc cw t2 n2 db1 = (Inr u2, db2)" using a by (rule conjunct2)
  from SetSystemPrompt_twice_live [OF a1 a2] obtain c where
    k: "find (\<lambda>c. Name c = currentContext cw) (contexts db) = Some c \<and>
          filter (\<lambda>r. ContextID r = CtxID c \<and> Source r = SystemPrompt \<and> Live r) (records db2) =
            [\<lparr>ID = next_id db + 1, Timestamp = n2, Source = SystemPrompt, Content = t2,
               Live = True, EstTokens = tc t2, ContextID = CtxID c, ResponseID = None\<rparr>] \<and>
          \<lparr>ID = next_id db, Timestamp = n1, Source = SystemPrompt, Content = t1,
               Live = False, EstTokens = tc t1, ContextID = CtxID c, ResponseID = None\<rparr>
            \<in> set (filter (\<lambda>r. ContextID r = CtxID c) (records db2)) \<and>
          \<lparr>ID = next_id db + 1, Timestamp = n2, Source = SystemPrompt, Content = t2,
               Live = True, EstTokens = tc t2, ContextID = CtxID c, ResponseID = None\<rparr>
            \<in> set (filter (\<lambda>r. ContextID r = CtxID c) (records db2))" ..
  note c = k [THEN conjunct1]
  note one = k [THEN conjunct2, THEN conjunct1]
  note b1 = k [THEN conjunct2, THEN conjunct2, THEN conjunct1]
  note b2 = k [THEN conjunct2, THEN conjunct2, THEN conjunct2]
  have live: "filter (\<lambda>r. Source r = SystemPrompt) rs =
              [\<lparr>ID = next_id db + 1, Timestamp = n2, Source = SystemPrompt, Content = t2,
                Live = True, EstTokens = tc t2, ContextID = CtxID c, ResponseID = None\<rparr>]"
    if "ListLiveRecords (CtxID c) db2 = (Inr rs, d)" for rs d
    by (simp only: ListLiveRecords_Inr [OF that] filter_sort filter_sys_live one
        sort_key_simps insort_key.simps)
  have all1: "\<lparr>ID = next_id db, Timestamp = n1, Source = SystemPrompt, Content = t1,
              Live = False, EstTokens = tc t1, ContextID = CtxID c, ResponseID = None\<rparr> \<in> set rs"
    if "ListRecordsInContext (CtxID c) db2 = (Inr rs, d)" for rs d
    using b1 by (simp only: ListRecordsInContext_Inr [OF that] set_sort)
  have all2: "\<lparr>ID = next_id db + 1, Timestamp = n2, Source = SystemPrompt, Content = t2,
              Live = True, EstTokens = tc t2, ContextID = CtxID c, ResponseID = None\<rparr> \<in> set rs"
    if "ListRecordsInContext (CtxID c) db2 = (Inr rs, d)" for rs d
    using b2 by (simp only: ListRecordsInContext_Inr [OF that] set_sort)
  show "\<exists>c.
         find (\<lambda>c. Name c = currentContext cw) (contexts db) = Some c \<and>
         filter (\<lambda>r. ContextID r = CtxID c \<and> Source r = SystemPrompt \<and> Live r) (records db2) =
           [\<lparr>ID = next_id db + 1, Timestamp = n2, Source = SystemPrompt, Content = t2,
             Live = True, EstTokens = tc t2, ContextID = CtxID c, ResponseID = None\<rparr>] \<and>
         (\<forall>rs d. ListLiveRecords (CtxID c) db2 = (Inr rs, d) \<longrightarrow>
            filter (\<lambda>r. Source r = SystemPrompt) rs =
              [\<lparr>ID = next_id db + 1, Timestamp = n2, Source = SystemPrompt, Content = t2,
                Live = True, EstTokens = tc t2, ContextID = CtxID c, ResponseID = None\<rparr>]) \<and>
         (\<forall>rs d. ListRecordsInContext (CtxID c) db2 = (Inr rs, d) \<longrightarrow>
            \<lparr>ID = next_id db, Timestamp = n1, Source = SystemPrompt, Content = t1,
              Live = False, EstTokens = tc t1, ContextID = CtxID c, ResponseID = None\<rparr> \<in> set rs \<and>
            \<lparr>ID = next_id db + 1, Timestamp = n2, Source = SystemPrompt, Content = t2,
              Live = True, EstTokens = tc t2, ContextID = CtxID c, ResponseID = None\<rparr> \<in> set rs)"
  proof (rule exI [of _ c], intro conjI allI impI)
    show "find (\<lambda>c. Name c = currentContext cw) (contexts db) = Some c" by (rule c)
  qed (rule one, erule live, erule all1, erule all2)
next
  fix e db1
  assume "SetSystemPrompt tc cw t1 n1 db = (Inl e, db1)"
  note k = SetSystemPrompt_atomic [OF this]
  show "contexts db1 = contexts db" by (rule k [THEN conjunct1])
  show "records db1 = records db" by (rule k [THEN conjunct2, THEN conjunct1])
  show "next_id db1 = next_id db" by (rule k [THEN conjunct2, THEN conjunct2])
next
  fix u1 db1 cid
  assume a: "SetSystemPrompt tc cw t1 n1 db = (Inr u1, db1) \<and>
         (\<forall>cid. length (filter (\<lambda>r. ContextID r = cid \<and> Source r = SystemPrompt \<and> Live r)
                          (records db)) \<le> 1)"
  show "length (filter (\<lambda>r. ContextID r = cid \<and> Source r = SystemPrompt \<and> Live r)
                          (records db1)) \<le> 1"
    by (rule SetSystemPrompt_keeps_invariant [OF a [THEN conjunct1] a [THEN conjunct2]])
qed

theorem C4_system_prompt_twice_witness:
  "SetSystemPrompt charCount (demoWindow (stubModel [] 0)) ''be brief'' 10 demoDB =
     (Inr (),
      demoDB\<lparr>stmts := 5,
         records := [\<lparr>ID = 1, Timestamp = 10, Source = SystemPrompt, Content = ''be brief'',
                      Live = True, EstTokens = 8, ContextID = ''id-demo'', ResponseID = None\<rparr>],
         next_id := 2\<rparr>)
   \<and> SetSystemPrompt charCount (demoWindow (stubModel [] 0)) ''be kind'' 20
       (demoDB\<lparr>stmts := 5,
         records := [\<lparr>ID = 1, Timestamp = 10, Source = SystemPrompt, Content = ''be brief'',
                      Live = True, EstTokens = 8, ContextID = ''id-demo'', ResponseID = None\<rparr>],
         next_id := 2\<rparr>) =
     (Inr (),
      demoDB\<lparr>stmts := 10,
         records := [\<lparr>ID = 1, Timestamp = 10, Source = SystemPrompt, Content = ''be brief'',
                      Live = False, EstTokens = 8, ContextID = ''id-demo'', ResponseID = None\<rparr>,
                     \<lparr>ID = 2, Timestamp = 20, Source = SystemPrompt, Content = ''be kind'',
                      Live = True, EstTokens = 7, ContextID = ''id-demo'', ResponseID = None\<rparr>],
         next_id := 3\<rparr>)
   \<and> (\<exists>d. ListLiveRecords ''id-demo''
       (demoDB\<lparr>stmts := 10,
         records := [\<lparr>ID = 1, Timestamp = 10, Source = SystemPrompt, Content = ''be brief'',
                      Live = False, EstTokens = 8, ContextID = ''id-demo'', ResponseID = None\<rparr>,
                     \<lparr>ID = 2, Timestamp = 20, Source = SystemPrompt, Content = ''be kind'',
                      Live = True, EstTokens = 7, ContextID = ''id-demo'', ResponseID = None\<rparr>],
         next_id := 3\<rparr>) =
       (Inr [\<lparr>ID = 2, Timestamp = 20, Source = SystemPrompt, Content = ''be kind'',
              Live = True, EstTokens = 7, ContextID = ''id-demo'', ResponseID = None\<rparr>], d))
   \<and> (\<exists>d. ListRecordsInContext ''id-demo''
       (demoDB\<lparr>stmts := 10,
         records := [\<lparr>ID = 1, Timestamp = 10, Source = SystemPrompt, Content = ''be brief'',
                      Live = False, EstTokens = 8, ContextID = ''id-demo'', ResponseID = None\<rparr>,
                     \<lparr>ID = 2, Timestamp = 20, Source = SystemPrompt, Content = ''be kind'',
                      Live = True, EstTokens = 7, ContextID = ''id-demo'', ResponseID = None\<rparr>],
         next_id := 3\<rparr>) =
       (Inr [\<lparr>ID = 1, Timestamp = 10, Source = SystemPrompt, Content = ''be brief'',
              Live = False, EstTokens = 8, ContextID = ''id-demo'', ResponseID = None\<rparr>,
             \<lparr>ID = 2, Timestamp = 20, Source = SystemPrompt, Content = ''be kind'',
              Live = True, EstTokens = 7, ContextID = ''id-demo'', ResponseID = None\<rparr>], d))"
  using C4_system_prompt_twice [of charCount "demoWindow (stubModel [] 0)" "''be brief''" 10 demoDB "''be kind''" 20]
  by (simp add: eval_SetSystemPrompt1 eval_SetSystemPrompt2 ListLiveRecords_eq
      ListRecordsInContext_def listRecordsWhere_eq demoDB_sel)

section \<open>Summaries\<close>

lemma markAllNotAlive_Inr:
  "markAllNotAlive rs tx = (Inr u, tx') \<Longrightarrow>
     tx' = tx\<lparr>stmts := stmts tx + length rs,
              records := map (\<lambda>r. if ID r \<in> ID ` set rs then r\<lparr>Live := False\<rparr> else r) (records tx)\<rparr>"
proof (induction rs arbitrary: tx)
  case Nil
  then show ?case by simp
next
  case (Cons a rs)
  from Cons.prems have nf: "\<not> fails tx (stmts tx)"
    by (auto simp: markRecordNotAlive_eq split: if_splits)
  let ?tx1 = "tx\<lparr>stmts := Suc (stmts tx),
                  records := map (\<lambda>r. if ID r = ID a then r\<lparr>Live := False\<rparr> else r) (records tx)\<rparr>"
  from Cons.prems nf have "markAllNotAlive rs ?tx1 = (Inr u, tx')"
    by (simp add: markRecordNotAlive_eq)
  from Cons.IH [OF this] have "tx' = ?tx1\<lparr>stmts := stmts ?tx1 + length rs,
              records := map (\<lambda>r. if ID r \<in> ID ` set rs then r\<lparr>Live := False\<rparr> else r) (records ?tx1)\<rparr>" .
  moreover have "map (\<lambda>r. if ID r \<in> ID ` set rs then r\<lparr>Live := False\<rparr> else r)
          (map (\<lambda>r. if ID r = ID a then r\<lparr>Live := False\<rparr> else r) xs) =
        map (\<lambda>r. if ID r \<in> ID ` set (a # rs) then r\<lparr>Live := False\<rparr> else r) xs" for xs
    by (induction xs) auto
  ultimately show ?case by simp
qed

lemma markAllNotAlive_Inl:
  "markAllNotAlive rs tx = (Inl e, tx') \<Longrightarrow> e = ErrStorage"
proof (induction rs arbitrary: tx)
  case Nil
  then show ?case by simp
next
  case (Cons a rs)
  then show ?case
    by (auto simp: markRecordNotAlive_eq split: if_splits)
qed

lemma markAllNotAlive_total:
  "\<forall>n. \<not> fails tx n \<Longrightarrow>
     fst (markAllNotAlive rs tx) = Inr () \<and> fails (snd (markAllNotAlive rs tx)) = fails tx"
proof (induction rs arbitrary: tx)
  case Nil
  then show ?case by simp
next
  case (Cons a rs)
  let ?tx1 = "tx\<lparr>stmts := Suc (stmts tx),
                  records := map (\<lambda>r. if ID r = ID a then r\<lparr>Live := False\<rparr> else r) (records tx)\<rparr>"
  have "\<forall>n. \<not> fails ?tx1 n" using Cons.prems by simp
  from Cons.IH [OF this] show ?case using Cons.prems by (simp add: markRecordNotAlive_eq)
qed

lemma AcceptSummaryInContext_atomic:
  "AcceptSummaryInContext tc cw result name now db = (Inl e, db') \<Longrightarrow>
     contexts db' = contexts db \<and> records db' = records db \<and> next_id db' = next_id db"
  by (auto simp: AcceptSummaryInContext_def thenE_def getContextIDByName_eq
      split: if_splits prod.splits sum.splits option.splits dest!: transaction_atomic)

lemma AcceptSummaryInContext_Inr:
  assumes "AcceptSummaryInContext tc cw result name now db = (Inr u, db')"
  shows "\<exists>c. find (\<lambda>c. Name c = name) (contexts db) = Some c \<and>
           records db' =
             map (\<lambda>r. if ID r \<in> ID ` set (Replaced result) then r\<lparr>Live := False\<rparr> else r) (records db) @
             [\<lparr>ID = next_id db, Timestamp = now, Source = ModelResp, Content = Summary result,
               Live = True, EstTokens = tc (Summary result), ContextID = CtxID c,
               ResponseID = None\<rparr>] \<and>
           contexts db' = contexts db \<and> next_id db' = next_id db + 1"
  using assms
  by (auto simp: AcceptSummaryInContext_def getContextIDByName_eq transaction_def insertRecordTx_def
      insertRecordTxWithResponseID_def io_defs Let_def
      split: if_splits prod.splits sum.splits option.splits dest!: markAllNotAlive_Inr)

lemma Summarize_reads_only:
  "SummarizeLiveContextInContext tc dflt cw name db = (r, db') \<Longrightarrow>
     contexts db' = contexts db \<and> records db' = records db \<and> next_id db' = next_id db \<and>
     fails db' = fails db"
  by (auto simp: SummarizeLiveContextInContext_def getContextIDByName_eq ListLiveRecords_eq
      thenE_def fail_def ret_def Let_def
      split: if_splits prod.splits sum.splits option.splits)

lemma Summarize_Inr:
  "SummarizeLiveContextInContext tc dflt cw name db = (Inr result, db') \<Longrightarrow>
     \<exists>c. find (\<lambda>c. Name c = name) (contexts db) = Some c \<and>
         Replaced result =
           sort_key Timestamp (filter (\<lambda>r. ContextID r = CtxID c \<and> Live r) (records db)) \<and>
         Replaced result \<noteq> []"
  by (auto simp: SummarizeLiveContextInContext_def getContextIDByName_eq ListLiveRecords_eq
      thenE_def fail_def ret_def Let_def
      split: if_splits prod.splits sum.splits option.splits)

lemma Summarize_no_live:
  assumes "\<forall>c. find (\<lambda>c. Name c = name) (contexts db) = Some c \<longrightarrow>
             filter (\<lambda>r. ContextID r = CtxID c \<and> Live r) (records db) = []"
  shows "\<exists>e. fst (SummarizeLiveContextInContext tc dflt cw name db) = Inl e"
  using assms
  by (auto simp: SummarizeLiveContextInContext_def getContextIDByName_eq ListLiveRecords_eq
      thenE_def fail_def ret_def Let_def
      split: if_splits prod.splits sum.splits option.splits)

lemma Summarize_no_live_exact:
  assumes "summarizer cw = Some summ"
      and "find (\<lambda>c. Name c = name) (contexts db) = Some c"
      and "filter (\<lambda>r. ContextID r = CtxID c \<and> Live r) (records db) = []"
      and "\<not> fails db (stmts db)" and "\<not> fails db (Suc (stmts db))"
  shows "SummarizeLiveContextInContext tc dflt cw name db =
           (Inl ErrNoLiveRecords, db\<lparr>stmts := Suc (Suc (stmts db))\<rparr>)"
  using assms
  by (simp add: SummarizeLiveContextInContext_def getContextIDByName_eq ListLiveRecords_eq
      thenE_def fail_def ret_def Let_def)

lemma mark_all_live_gone:
  "(\<And>x. x \<in> set xs \<Longrightarrow> ContextID x = cid \<Longrightarrow> Live x \<Longrightarrow> ID x \<in> S) \<Longrightarrow>
   filter (\<lambda>r. ContextID r = cid \<and> Live r)
     (map (\<lambda>r. if ID r \<in> S then r\<lparr>Live := False\<rparr> else r) xs) = []"
  by (induction xs) auto

lemma mark_keeps_retired:
  "r \<in> set xs \<Longrightarrow> ID r \<in> S \<Longrightarrow>
   r\<lparr>Live := False\<rparr> \<in> set (map (\<lambda>r. if ID r \<in> S then r\<lparr>Live := False\<rparr> else r) xs)"
  by (induction xs) auto

lemma AcceptSummaryInContext_total:
  assumes nf: "\<forall>n. \<not> fails db n" and c: "find (\<lambda>c. Name c = name) (contexts db) = Some c"
  shows "\<exists>db'. AcceptSummaryInContext tc cw result name now db = (Inr (), db')"
proof -
  let ?tx = "db\<lparr>stmts := Suc (Suc (stmts db))\<rparr>"
  have nf': "\<forall>n. \<not> fails ?tx n" using nf by simp
  obtain r tx' where m: "markAllNotAlive (Replaced result) ?tx = (r, tx')"
    by (cases "markAllNotAlive (Replaced result) ?tx")
  from markAllNotAlive_total [OF nf', of "Replaced result"] m
  have r: "r = Inr ()" and f: "fails tx' = fails db" by simp_all
  show ?thesis
    using nf c m r f
    by (simp add: AcceptSummaryInContext_def getContextIDByName_eq transaction_def insertRecordTx_def
        insertRecordTxWithResponseID_def io_defs Let_def)
qed

lemma accept_after_summarize:
  assumes s: "SummarizeLiveContextInContext tc dflt cw name db = (Inr result, db1)"
      and a: "AcceptSummaryInContext tc cw result name now db1 = (Inr u, db2)"
  shows "\<exists>c. find (\<lambda>c. Name c = name) (contexts db) = Some c \<and>
           records db2 =
             map (\<lambda>r. if ID r \<in> ID ` set (Replaced result) then r\<lparr>Live := False\<rparr> else r) (records db1) @
             [\<lparr>ID = next_id db1, Timestamp = now, Source = ModelResp, Content = Summary result,
               Live = True, EstTokens = tc (Summary result), ContextID = CtxID c,
               ResponseID = None\<rparr>] \<and>
           filter (\<lambda>r. ContextID r = CtxID c \<and> Live r) (records db2) =
             [\<lparr>ID = next_id db1, Timestamp = now, Source = ModelResp, Content = Summary result,
               Live = True, EstTokens = tc (Summary result), ContextID = CtxID c,
               ResponseID = None\<rparr>] \<and>
           (\<forall>r\<in>set (Replaced result).
               r\<lparr>Live := False\<rparr> \<in> set (filter (\<lambda>r. ContextID r = CtxID c) (records db2)))"
proof -
  note ro = Summarize_reads_only [OF s]
  from Summarize_Inr [OF s] obtain c where
    k: "find (\<lambda>c. Name c = name) (contexts db) = Some c \<and>
         Replaced result =
           sort_key Timestamp (filter (\<lambda>r. ContextID r = CtxID c \<and> Live r) (records db)) \<and>
         Replaced result \<noteq> []" ..
  note c = k [THEN conjunct1]
  note rep = k [THEN conjunct2, THEN conjunct1]
  from AcceptSummaryInContext_Inr [OF a] obtain c' where
    k': "find (\<lambda>c. Name c = name) (contexts db1) = Some c' \<and>
           records db2 =
             map (\<lambda>r. if ID r \<in> ID ` set (Replaced result) then r\<lparr>Live := False\<rparr> else r) (records db1) @
             [\<lparr>ID = next_id db1, Timestamp = now, Source = ModelResp, Content = Summary result,
               Live = True, EstTokens = tc (Summary result), ContextID = CtxID c',
               ResponseID = None\<rparr>] \<and>
           contexts db2 = contexts db1 \<and> next_id db2 = next_id db1 + 1" ..
  have cc: "c' = c" using c k' [THEN conjunct1] ro by simp
  note recs = k' [THEN conjunct2, THEN conjunct1, unfolded cc]
  have setrep: "set (Replaced result) = {r \<in> set (records db1). ContextID r = CtxID c \<and> Live r}"
    using ro by (simp add: rep)
  have gone: "filter (\<lambda>r. ContextID r = CtxID c \<and> Live r)
     (map (\<lambda>r. if ID r \<in> ID ` set (Replaced result) then r\<lparr>Live := False\<rparr> else r) (records db1)) = []"
    by (rule mark_all_live_gone) (simp add: setrep)
  have one: "filter (\<lambda>r. ContextID r = CtxID c \<and> Live r) (records db2) =
             [\<lparr>ID = next_id db1, Timestamp = now, Source = ModelResp, Content = Summary result,
               Live = True, EstTokens = tc (Summary result), ContextID = CtxID c,
               ResponseID = None\<rparr>]"
    by (simp add: recs gone)
  have kept: "r\<lparr>Live := False\<rparr> \<in> set (filter (\<lambda>r. ContextID r = CtxID c) (records db2))"
    if "r \<in> set (Replaced result)" for r
  proof -
    from that have r: "r \<in> set (records db1)" "ContextID r = CtxID c"
      by (simp_all add: setrep)
    from that have "ID r \<in> ID ` set (Replaced result)" by (rule imageI)
    from mark_keeps_retired [OF r(1) this] r(2) show ?thesis
      by (simp add: recs)
  qed
  show ?thesis
    apply (rule exI [of _ c])
    apply (rule conjI, rule c)
    apply (rule conjI, rule recs)
    apply (rule conjI, rule one)
    apply (rule ballI, erule kept)
    done
qed

lemma eval_Summarize:
  "SummarizeLiveContextInContext charCount ''Summarize.''
     ((demoWindow (stubModel [] 0))\<lparr>summarizer := Some (stubModel [reply ''short''] 4)\<rparr>)
     ''demo''
     (demoDB\<lparr>records :=
        [\<lparr>ID = 1, Timestamp = 1, Source = Prompt, Content = ''Hello world'', Live = True,
          EstTokens = 11, ContextID = ''id-demo'', ResponseID = None\<rparr>,
         \<lparr>ID = 2, Timestamp = 2, Source = Prompt, Content = ''How are you?'', Live = True,
          EstTokens = 12, ContextID = ''id-demo'', ResponseID = None\<rparr>],
        next_id := 3\<rparr>) =
   (Inr \<lparr>Summary = ''short'',
         Replaced =
           [\<lparr>ID = 1, Timestamp = 1, Source = Prompt, Content = ''Hello world'', Live = True,
             EstTokens = 11, ContextID = ''id-demo'', ResponseID = None\<rparr>,
            \<lparr>ID = 2, Timestamp = 2, Source = Prompt, Content = ''How are you?'', Live = True,
             EstTokens = 12, ContextID = ''id-demo'', ResponseID = None\<rparr>],
         OrigCount = 23, SummaryCount = 5\<rparr>,
    demoDB\<lparr>records :=
        [\<lparr>ID = 1, Timestamp = 1, Source = Prompt, Content = ''Hello world'', Live = True,
          EstTokens = 11, ContextID = ''id-demo'', ResponseID = None\<rparr>,
         \<lparr>ID = 2, Timestamp = 2, Source = Prompt, Content = ''How are you?'', Live = True,
          EstTokens = 12, ContextID = ''id-demo'', ResponseID = None\<rparr>],
        next_id := 3, stmts := 2\<rparr>)"
  by (simp add: SummarizeLiveContextInContext_def getContextIDByName_eq ListLiveRecords_eq
      thenE_def fail_def ret_def Let_def demo_defs)

lemma eval_Accept:
  "AcceptSummaryInContext charCount
     ((demoWindow (stubModel [] 0))\<lparr>summarizer := Some (stubModel [reply ''short''] 4)\<rparr>)
     \<lparr>Summary = ''short'',
         Replaced =
           [\<lparr>ID = 1, Timestamp = 1, Source = Prompt, Content = ''Hello world'', Live = True,
             EstTokens = 11, ContextID = ''id-demo'', ResponseID = None\<rparr>,
            \<lparr>ID = 2, Timestamp = 2, Source = Prompt, Content = ''How are you?'', Live = True,
             EstTokens = 12, ContextID = ''id-demo'', ResponseID = None\<rparr>],
         OrigCount = 23, SummaryCount = 5\<rparr>
     ''demo'' 30
     (demoDB\<lparr>records :=
        [\<lparr>ID = 1, Timestamp = 1, Source = Prompt, Content = ''Hello world'', Live = True,
          EstTokens = 11, ContextID = ''id-demo'', ResponseID = None\<rparr>,
         \<lparr>ID = 2, Timestamp = 2, Source = Prompt, Content = ''How are you?'', Live = True,
          EstTokens = 12, ContextID = ''id-demo'', ResponseID = None\<rparr>],
        next_id := 3, stmts := 2\<rparr>) =
   (Inr (),
    demoDB\<lparr>records :=
        [\<lparr>ID = 1, Timestamp = 1, Source = Prompt, Content = ''Hello world'', Live = False,
          EstTokens = 11, ContextID = ''id-demo'', ResponseID = None\<rparr>,
         \<lparr>ID = 2, Timestamp = 2, Source = Prompt, Content = ''How are you?'', Live = False,
          EstTokens = 12, ContextID = ''id-demo'', ResponseID = None\<rparr>,
         \<lparr>ID = 3, Timestamp = 30, Source = ModelResp, Content = ''short'', Live = True,
          EstTokens = 5, ContextID = ''id-demo'', ResponseID = None\<rparr>],
        next_id := 4, stmts := 8\<rparr>)"
  by (simp add: AcceptSummaryInContext_def getContextIDByName_eq transaction_def insertRecordTx_def
      insertRecordTxWithResponseID_def markRecordNotAlive_eq io_defs Let_def demo_defs)

text \<open>
  Claim C6. Without a summarizer, \<open>SummarizeLiveContextInContext\<close> returns the error
  \<open>ErrNoSummarizer\<close> and the database is untouched. When the named context has no live
  record, it returns an error and the tables are unchanged; and with a summarizer
  configured, the context present and the store answering both reads, that error is
  \<open>ErrNoLiveRecords\<close>.
\<close>

theorem C6_summarize_errors:
  "(summarizer cw = None \<longrightarrow>
      SummarizeLiveContextInContext tc dflt cw name db = (Inl ErrNoSummarizer, db))
   \<and> ((\<forall>c. find (\<lambda>c. Name c = name) (contexts db) = Some c \<longrightarrow>
          filter (\<lambda>r. ContextID r = CtxID c \<and> Live r) (records db) = []) \<longrightarrow>
        (\<exists>e db'. SummarizeLiveContextInContext tc dflt cw name db = (Inl e, db') \<and>
           contexts db' = contexts db \<and> records db' = records db \<and> next_id db' = next_id db))
   \<and> (summarizer cw \<noteq> None \<and> find (\<lambda>c. Name c = name) (contexts db) = Some c \<and>
        filter (\<lambda>r. ContextID r = CtxID c \<and> Live r) (records db) = [] \<and>
        \<not> fails db (stmts db) \<and> \<not> fails db (Suc (stmts db)) \<longrightarrow>
        SummarizeLiveContextInContext tc dflt cw name db =
          (Inl ErrNoLiveRecords, db\<lparr>stmts := Suc (Suc (stmts db))\<rparr>))"
proof (intro conjI impI)
  assume "summarizer cw = None"
  then show "SummarizeLiveContextInContext tc dflt cw name db = (Inl ErrNoSummarizer, db)"
    by (simp add: SummarizeLiveContextInContext_def)
next
  assume a: "\<forall>c. find (\<lambda>c. Name c = name) (contexts db) = Some c \<longrightarrow>
          filter (\<lambda>r. ContextID r = CtxID c \<and> Live r) (records db) = []"
  obtain r db' where res: "SummarizeLiveContextInContext tc dflt cw name db = (r, db')"
    by (cases "SummarizeLiveContextInContext tc dflt cw name db")
  from Summarize_no_live [OF a, of tc dflt cw] res obtain e where e: "r = Inl e" by auto
  note k = Summarize_reads_only [OF res]
  show "\<exists>e db'. SummarizeLiveContextInContext tc dflt cw name db = (Inl e, db') \<and>
           contexts db' = contexts db \<and> records db' = records db \<and> next_id db' = next_id db"
    apply (rule exI [of _ e], rule exI [of _ db'])
    using res e k by simp
next
  assume a: "summarizer cw \<noteq> None \<and> find (\<lambda>c. Name c = name) (contexts db) = Some c \<and>
        filter (\<lambda>r. ContextID r = CtxID c \<and> Live r) (records db) = [] \<and>
        \<not> fails db (stmts db) \<and> \<not> fails db (Suc (stmts db))"
  then obtain summ where s: "summarizer cw = Some summ" by auto
  show "SummarizeLiveContextInContext tc dflt cw name db =
          (Inl ErrNoLiveRecords, db\<lparr>stmts := Suc (Suc (stmts db))\<rparr>)"
    by (rule Summarize_no_live_exact [OF s
          a [THEN conjunct2, THEN conjunct1]
          a [THEN conjunct2, THEN conjunct2, THEN conjunct1]
          a [THEN conjunct2, THEN conjunct2, THEN conjunct2, THEN conjunct1]
          a [THEN conjunct2, THEN conjunct2, THEN conjunct2, THEN conjunct2]])
qed

theorem C6_summarize_errors_witness:
  "SummarizeLiveContextInContext charCount ''Summarize.'' (demoWindow (stubModel [] 0))
     ''demo'' demoDB = (Inl ErrNoSummarizer, demoDB)
   \<and> SummarizeLiveContextInContext charCount ''Summarize.''
       ((demoWindow (stubModel [] 0))\<lparr>summarizer := Some (stubModel [reply ''short''] 4)\<rparr>)
       ''demo'' demoDB = (Inl ErrNoLiveRecords, demoDB\<lparr>stmts := 2\<rparr>)"
proof -
  let ?cw = "demoWindow (stubModel [] 0)"
  let ?cw' = "?cw\<lparr>summarizer := Some (stubModel [reply ''short''] 4)\<rparr>"
  have h0: "summarizer ?cw = None" by (simp add: demo_defs)
  have h1: "summarizer ?cw' \<noteq> None \<and> find (\<lambda>c. Name c = ''demo'') (contexts demoDB) = Some demoContext \<and>
        filter (\<lambda>r. ContextID r = CtxID demoContext \<and> Live r) (records demoDB) = [] \<and>
        \<not> fails demoDB (stmts demoDB) \<and> \<not> fails demoDB (Suc (stmts demoDB))"
    by (simp add: demo_defs)
  note a = C6_summarize_errors [of ?cw charCount "''Summarize.''" "''demo''" demoDB, THEN conjunct1, THEN mp, OF h0]
  note b = C6_summarize_errors [of ?cw' charCount "''Summarize.''" "''demo''" demoDB demoContext,
      THEN conjunct2, THEN conjunct2, THEN mp, OF h1]
  from a b show ?thesis by (simp add: demoDB_def)
qed

text \<open>
  Claim C5. Let \<open>SummarizeLiveContextInContext\<close> return a result, and let nothing be
  written in between. If \<open>AcceptSummaryInContext\<close> then succeeds, it has set to not live
  every row whose identifier is listed in the result and appended one live
  model-response row holding the summary; the live records of the context are exactly
  that one row, and every replaced record is still listed by \<open>ListRecordsInContext\<close>,
  not live. If it fails, the tables are as before. On a store that fails no statement
  it succeeds. \<open>RejectSummary\<close> changes neither session nor database, so the live
  records are the same.
\<close>

theorem C5_summary_accept_reject:
  assumes s: "SummarizeLiveContextInContext tc dflt cw name db = (Inr result, db1)"
  shows "(\<exists>c. find (\<lambda>c. Name c = name) (contexts db) = Some c \<and>
           (\<forall>u db2. AcceptSummaryInContext tc cw result name now db1 = (Inr u, db2) \<longrightarrow>
              records db2 =
                map (\<lambda>r. if ID r \<in> ID ` set (Replaced result) then r\<lparr>Live := False\<rparr> else r)
                  (records db1) @
                [\<lparr>ID = next_id db1, Timestamp = now, Source = ModelResp,
                  Content = Summary result, Live = True, EstTokens = tc (Summary result),
                  ContextID = CtxID c, ResponseID = None\<rparr>] \<and>
              (\<forall>rs d. ListLiveRecords (CtxID c) db2 = (Inr rs, d) \<longrightarrow>
                 rs = [\<lparr>ID = next_id db1, Timestamp = now, Source = ModelResp,
                        Content = Summary result, Live = True, EstTokens = tc (Summary result),
                        ContextID = CtxID c, ResponseID = None\<rparr>]) \<and>
              (\<forall>rs d. ListRecordsInContext (CtxID c) db2 = (Inr rs, d) \<longrightarrow>
                 (\<forall>r\<in>set (Replaced result). r\<lparr>Live := False\<rparr> \<in> set rs))))
       \<and> (\<forall>e db2. AcceptSummaryInContext tc cw result name now db1 = (Inl e, db2) \<longrightarrow>
             contexts db2 = contexts db1 \<and> records db2 = records db1 \<and> next_id db2 = next_id db1)
       \<and> ((\<forall>n. \<not> fails db n) \<longrightarrow>
             (\<exists>db2. AcceptSummaryInContext tc cw result name now db1 = (Inr (), db2)))
       \<and> RejectSummary cw result db1 = (cw, db1)
       \<and> (\<forall>cid. ListLiveRecords cid (snd (RejectSummary cw result db1)) = ListLiveRecords cid db1)"
proof (intro conjI)
  note ro = Summarize_reads_only [OF s]
  from Summarize_Inr [OF s] obtain c where
    k: "find (\<lambda>c. Name c = name) (contexts db) = Some c \<and>
         Replaced result =
           sort_key Timestamp (filter (\<lambda>r. ContextID r = CtxID c \<and> Live r) (records db)) \<and>
         Replaced result \<noteq> []" ..
  note c = k [THEN conjunct1]
  have c1: "find (\<lambda>c. Name c = name) (contexts db1) = Some c" using c ro by simp
  let ?new = "\<lparr>ID = next_id db1, Timestamp = now, Source = ModelResp,
                  Content = Summary result, Live = True, EstTokens = tc (Summary result),
                  ContextID = CtxID c, ResponseID = None\<rparr>"
  have main: "records db2 =
                map (\<lambda>r. if ID r \<in> ID ` set (Replaced result) then r\<lparr>Live := False\<rparr> else r)
                  (records db1) @ [?new] \<and>
              (\<forall>rs d. ListLiveRecords (CtxID c) db2 = (Inr rs, d) \<longrightarrow> rs = [?new]) \<and>
              (\<forall>rs d. ListRecordsInContext (CtxID c) db2 = (Inr rs, d) \<longrightarrow>
                 (\<forall>r\<in>set (Replaced result). r\<lparr>Live := False\<rparr> \<in> set rs))"
    if a: "AcceptSummaryInContext tc cw result name now db1 = (Inr u, db2)" for u db2
  proof -
    from accept_after_summarize [OF s a] obtain c' where
      k': "find (\<lambda>c. Name c = name) (contexts db) = Some c' \<and>
           records db2 =
             map (\<lambda>r. if ID r \<in> ID ` set (Replaced result) then r\<lparr>Live := False\<rparr> else r) (records db1) @
             [\<lparr>ID = next_id db1, Timestamp = now, Source = ModelResp, Content = Summary result,
               Live = True, EstTokens = tc (Summary result), ContextID = CtxID c',
               ResponseID = None\<rparr>] \<and>
           filter (\<lambda>r. ContextID r = CtxID c' \<and> Live r) (records db2) =
             [\<lparr>ID = next_id db1, Timestamp = now, Source = ModelResp, Content = Summary result,
               Live = True, EstTokens = tc (Summary result), ContextID = CtxID c',
               ResponseID = None\<rparr>] \<and>
           (\<forall>r\<in>set (Replaced result).
               r\<lparr>Live := False\<rparr> \<in> set (filter (\<lambda>r. ContextID r = CtxID c') (records db2)))" ..
    have cc: "c' = c" using c k' [THEN conjunct1] by simp
    note recs = k' [THEN conjunct2, THEN conjunct1, unfolded cc]
    note one = k' [THEN conjunct2, THEN conjunct2, THEN conjunct1, unfolded cc]
    note kept = k' [THEN conjunct2, THEN conjunct2, THEN conjunct2, unfolded cc]
    have live: "rs = [?new]" if "ListLiveRecords (CtxID c) db2 = (Inr rs, d)" for rs d
      by (simp only: ListLiveRecords_Inr [OF that] one sort_key_simps insort_key.simps)
    have all: "\<forall>r\<in>set (Replaced result). r\<lparr>Live := False\<rparr> \<in> set rs"
      if "ListRecordsInContext (CtxID c) db2 = (Inr rs, d)" for rs d
      using kept by (simp only: ListRecordsInContext_Inr [OF that] set_sort)
    show ?thesis
      apply (rule conjI, rule recs)
      apply (rule conjI)
       apply (intro allI impI, erule live)
      apply (intro allI impI, erule all)
      done
  qed
  show "\<exists>c. find (\<lambda>c. Name c = name) (contexts db) = Some c \<and>
           (\<forall>u db2. AcceptSummaryInContext tc cw result name now db1 = (Inr u, db2) \<longrightarrow>
              records db2 =
                map (\<lambda>r. if ID r \<in> ID ` set (Replaced result) then r\<lparr>Live := False\<rparr> else r)
                  (records db1) @
                [\<lparr>ID = next_id db1, Timestamp = now, Source = ModelResp,
                  Content = Summary result, Live = True, EstTokens = tc (Summary result),
                  ContextID = CtxID c, ResponseID = None\<rparr>] \<and>
              (\<forall>rs d. ListLiveRecords (CtxID c) db2 = (Inr rs, d) \<longrightarrow>
                 rs = [\<lparr>ID = next_id db1, Timestamp = now, Source = ModelResp,
                        Content = Summary result, Live = True, EstTokens = tc (Summary result),
                        ContextID = CtxID c, ResponseID = None\<rparr>]) \<and>
              (\<forall>rs d. ListRecordsInContext (CtxID c) db2 = (Inr rs, d) \<longrightarrow>
                 (\<forall>r\<in>set (Replaced result). r\<lparr>Live := False\<rparr> \<in> set rs)))"
    apply (rule exI [of _ c])
    apply (rule conjI, rule c)
    apply (intro allI impI, erule main)
    done
  show "\<forall>e db2. AcceptSummaryInContext tc cw result name now db1 = (Inl e, db2) \<longrightarrow>
             contexts db2 = contexts db1 \<and> records db2 = records db1 \<and> next_id db2 = next_id db1"
    by (intro allI impI, erule AcceptSummaryInContext_atomic)
  show "(\<forall>n. \<not> fails db n) \<longrightarrow>
             (\<exists>db2. AcceptSummaryInContext tc cw result name now db1 = (Inr (), db2))"
  proof
    assume "\<forall>n. \<not> fails db n"
    then have "\<forall>n. \<not> fails db1 n" using ro by simp
    from AcceptSummaryInContext_total [OF this c1]
    show "\<exists>db2. AcceptSummaryInContext tc cw result name now db1 = (Inr (), db2)" .
  qed
  show "RejectSummary cw result db1 = (cw, db1)"
    by (simp add: RejectSummary_def)
  show "\<forall>cid. ListLiveRecords cid (snd (RejectSummary cw result db1)) = ListLiveRecords cid db1"
    by (simp add: RejectSummary_def)
qed

theorem C5_summary_accept_reject_witness:
  "ListLiveRecords ''id-demo''
     (demoDB\<lparr>records :=
        [\<lparr>ID = 1, Timestamp = 1, Source = Prompt, Content = ''Hello world'', Live = False,
          EstTokens = 11, ContextID = ''id-demo'', ResponseID = None\<rparr>,
         \<lparr>ID = 2, Timestamp = 2, Source = Prompt, Content = ''How are you?'', Live = False,
          EstTokens = 12, ContextID = ''id-demo'', ResponseID = None\<rparr>,
         \<lparr>ID = 3, Timestamp = 30, Source = ModelResp, Content = ''short'', Live = True,
          EstTokens = 5, ContextID = ''id-demo'', ResponseID = None\<rparr>],
        next_id := 4, stmts := 8\<rparr>) =
   (Inr [\<lparr>ID = 3, Timestamp = 30, Source = ModelResp, Content = ''short'', Live = True,
          EstTokens = 5, ContextID = ''id-demo'', ResponseID = None\<rparr>],
    demoDB\<lparr>records :=
        [\<lparr>ID = 1, Timestamp = 1, Source = Prompt, Content = ''Hello world'', Live = False,
          EstTokens = 11, ContextID = ''id-demo'', ResponseID = None\<rparr>,
         \<lparr>ID = 2, Timestamp = 2, Source = Prompt, Content = ''How are you?'', Live = False,
          EstTokens = 12, ContextID = ''id-demo'', ResponseID = None\<rparr>,
         \<lparr>ID = 3, Timestamp = 30, Source = ModelResp, Content = ''short'', Live = True,
          EstTokens = 5, ContextID = ''id-demo'', ResponseID = None\<rparr>],
        next_id := 4, stmts := 9\<rparr>)"
  using C5_summary_accept_reject [OF eval_Summarize, of 30] eval_Accept
  by (simp add: ListLiveRecords_eq demoDB_sel)

section \<open>The model call\<close>

lemma sum_list_insort_key:
  "sum_list (map f (insort_key k x xs)) = (f :: 'a \<Rightarrow> int) x + sum_list (map f xs)"
  by (induction xs) auto

lemma sum_list_sort_key:
  "sum_list (map f (sort_key k xs)) = sum_list (map (f :: 'a \<Rightarrow> int) xs)"
  by (induction xs) (auto simp: sum_list_insort_key)

lemma eventRows_live_sum:
  "sum_list (map EstTokens (filter (\<lambda>r. ContextID r = cid \<and> Live r) (eventRows tc cid clock i n evs)))
   = sum_list (map (\<lambda>e. tc (Content e)) (filter Live evs))"
  by (induction evs arbitrary: i n) auto

lemma find_Name_map:
  "(\<And>c. Name (f c) = Name c) \<Longrightarrow>
   find (\<lambda>c. Name c = name) (map f cs) = map_option f (find (\<lambda>c. Name c = name) cs)"
  by (induction cs) auto

lemma insertEvents_fail_at:
  "k < length evs \<Longrightarrow> \<forall>j<k. \<not> fails db (stmts db + j) \<Longrightarrow> fails db (stmts db + k) \<Longrightarrow>
   insertEvents tc cid clock i msg evs db =
     (Inl ErrStorage,
      db\<lparr>stmts := stmts db + k + 1,
         records := records db @ eventRows tc cid clock i (next_id db) (take k evs),
         next_id := next_id db + int k\<rparr>)"
proof (induction evs arbitrary: k db i msg)
  case Nil
  then show ?case by simp
next
  case (Cons e es)
  show ?case
  proof (cases k)
    case 0
    with Cons.prems show ?thesis
      by (simp add: InsertRecordWithResponseID_eq)
  next
    case (Suc k')
    let ?db1 = "db\<lparr>stmts := Suc (stmts db),
               records := records db @ [\<lparr>ID = next_id db, Timestamp = clock i, Source = Source e,
                  Content = Content e, Live = Live e, EstTokens = tc (Content e),
                  ContextID = cid, ResponseID = ResponseID e\<rparr>],
               next_id := next_id db + 1\<rparr>"
    from Cons.prems Suc have nf0: "\<not> fails db (stmts db)" by force
    have p1: "k' < length es" using Cons.prems Suc by simp
    have p2: "\<forall>j<k'. \<not> fails ?db1 (stmts ?db1 + j)"
    proof (intro allI impI)
      fix j assume "j < k'"
      then have "Suc j < k" using Suc by simp
      with Cons.prems(2) have "\<not> fails db (stmts db + Suc j)" by blast
      then show "\<not> fails ?db1 (stmts ?db1 + j)" by simp
    qed
    have p3: "fails ?db1 (stmts ?db1 + k')" using Cons.prems(3) Suc by simp
    from Cons.IH [of k' ?db1 "Suc i" "Content e", OF p1 p2 p3] nf0 Suc
    show ?thesis
      by (simp add: InsertRecordWithResponseID_eq)
  qed
qed

lemma insertEvents_Inr:
  "insertEvents tc cid clock i msg evs db = (Inr m, db') \<Longrightarrow>
     db' = db\<lparr>stmts := stmts db + length evs,
              records := records db @ eventRows tc cid clock i (next_id db) evs,
              next_id := next_id db + int (length evs)\<rparr> \<and>
     m = (if evs = [] then msg else Content (last evs))"
proof (induction evs arbitrary: db i msg)
  case Nil
  then show ?case by simp
next
  case (Cons e es)
  let ?db1 = "db\<lparr>stmts := Suc (stmts db),
               records := records db @ [\<lparr>ID = next_id db, Timestamp = clock i, Source = Source e,
                  Content = Content e, Live = Live e, EstTokens = tc (Content e),
                  ContextID = cid, ResponseID = ResponseID e\<rparr>],
               next_id := next_id db + 1\<rparr>"
  from Cons.prems have nf: "\<not> fails db (stmts db)"
    by (auto simp: InsertRecordWithResponseID_eq split: if_splits)
  with Cons.prems have "insertEvents tc cid clock (Suc i) (Content e) es ?db1 = (Inr m, db')"
    by (simp add: InsertRecordWithResponseID_eq)
  from Cons.IH [OF this] show ?case by simp
qed

lemma insertEvents_Inl:
  "insertEvents tc cid clock i msg evs db = (Inl e, db') \<Longrightarrow>
     e = ErrStorage \<and> contexts db' = contexts db \<and>
     (\<exists>k<length evs. records db' = records db @ eventRows tc cid clock i (next_id db) (take k evs)
         \<and> stmts db' = stmts db + k + 1 \<and> next_id db' = next_id db + int k)"
proof (induction evs arbitrary: db i msg)
  case Nil
  then show ?case by simp
next
  case (Cons ev es)
  show ?case
  proof (cases "fails db (stmts db)")
    case True
    with Cons.prems show ?thesis
      by (auto simp: InsertRecordWithResponseID_eq intro!: exI [of _ 0])
  next
    case False
    let ?db1 = "db\<lparr>stmts := Suc (stmts db),
               records := records db @ [\<lparr>ID = next_id db, Timestamp = clock i, Source = Source ev,
                  Content = Content ev, Live = Live ev, EstTokens = tc (Content ev),
                  ContextID = cid, ResponseID = ResponseID ev\<rparr>],
               next_id := next_id db + 1\<rparr>"
    from False Cons.prems have "insertEvents tc cid clock (Suc i) (Content ev) es ?db1 = (Inl e, db')"
      by (simp add: InsertRecordWithResponseID_eq)
    from Cons.IH [OF this] obtain k where
      k: "k < length es" "records db' = records ?db1 @ eventRows tc cid clock (Suc i) (next_id ?db1) (take k es)"
         "stmts db' = stmts ?db1 + k + 1" "next_id db' = next_id ?db1 + int k"
      and e: "e = ErrStorage" "contexts db' = contexts ?db1"
      by auto
    show ?thesis
      using k e by (auto intro!: exI [of _ "Suc k"])
  qed
qed

lemma insertEvents_total:
  "\<forall>n. \<not> fails db n \<Longrightarrow> \<exists>m db'. insertEvents tc cid clock i msg evs db = (Inr m, db')"
proof (induction evs arbitrary: db i msg)
  case Nil
  then show ?case by simp
next
  case (Cons e es)
  let ?db1 = "db\<lparr>stmts := Suc (stmts db),
               records := records db @ [\<lparr>ID = next_id db, Timestamp = clock i, Source = Source e,
                  Content = Content e, Live = Live e, EstTokens = tc (Content e),
                  ContextID = cid, ResponseID = ResponseID e\<rparr>],
               next_id := next_id db + 1\<rparr>"
  have "\<forall>n. \<not> fails ?db1 n" using Cons.prems by simp
  from Cons.IH [of ?db1 "Suc i" "Content e", OF this] Cons.prems show ?case
    by (simp add: InsertRecordWithResponseID_eq)
qed

lemma CallModelWithOpts_reads:
  assumes "find (\<lambda>c. Name c = currentContext cw) (contexts db) = Some c"
      and "find (\<lambda>x. CtxID x = CtxID c) (contexts db) = Some info"
  shows "CallModelWithOpts tc cw clock opts db =
    (if fails db (stmts db) then (Inl ErrStorage, cw, db\<lparr>stmts := Suc (stmts db)\<rparr>)
     else if fails db (Suc (stmts db)) then (Inl ErrStorage, cw, db\<lparr>stmts := Suc (Suc (stmts db))\<rparr>)
     else if fails db (Suc (Suc (stmts db)))
       then (Inl ErrStorage, cw, db\<lparr>stmts := Suc (Suc (Suc (stmts db)))\<rparr>)
     else
       (case invokeModel (model cw) info
               (sort_key Timestamp (filter (\<lambda>r. ContextID r = CtxID c \<and> Live r) (records db))) opts of
          Inl e \<Rightarrow> (Inl e, cw, db\<lparr>stmts := Suc (Suc (Suc (stmts db)))\<rparr>)
        | Inr (events, responseID, tokensUsed) \<Rightarrow>
            (let cw' = cw\<lparr>metrics := metrics cw + tokensUsed\<rparr> in
             case insertEvents tc (CtxID c) clock 0 [] events
                    (db\<lparr>stmts := Suc (Suc (Suc (stmts db)))\<rparr>) of
               (Inl e, db4) \<Rightarrow> (Inl e, cw', db4)
             | (Inr lastMsg, db4) \<Rightarrow>
                 (case responseID of
                    None \<Rightarrow> (Inr lastMsg, cw', db4)
                  | Some rid \<Rightarrow>
                      (case UpdateContextLastResponseID (CtxID c) rid db4 of
                         (Inl e, db5) \<Rightarrow> (Inl e, cw', db5)
                       | (Inr _, db5) \<Rightarrow> (Inr lastMsg, cw', db5))))))"
  using assms
  by (simp add: CallModelWithOpts_def getContextIDByName_eq GetContext_eq ListLiveRecords_eq)

lemma CallModelWithOpts_Inr:
  assumes c: "find (\<lambda>c. Name c = currentContext cw) (contexts db) = Some c"
      and info: "find (\<lambda>x. CtxID x = CtxID c) (contexts db) = Some info"
      and cm: "CallModelWithOpts tc cw clock opts db = (Inr msg, cw', db')"
  shows "\<exists>events rid n.
           invokeModel (model cw) info
             (sort_key Timestamp (filter (\<lambda>r. ContextID r = CtxID c \<and> Live r) (records db))) opts
             = Inr (events, rid, n) \<and>
           cw' = cw\<lparr>metrics := metrics cw + n\<rparr> \<and>
           records db' = records db @ eventRows tc (CtxID c) clock 0 (next_id db) events \<and>
           contexts db' =
             (case rid of None \<Rightarrow> contexts db
              | Some r \<Rightarrow> map (\<lambda>x. if CtxID x = CtxID c then x\<lparr>LastResponseID := Some r\<rparr> else x)
                            (contexts db)) \<and>
           fails db' = fails db \<and>
           msg = (if events = [] then [] else Content (last events))"
proof -
  note eq = CallModelWithOpts_reads [OF c info, of tc clock opts]
  from cm eq have nf: "\<not> fails db (stmts db)" "\<not> fails db (Suc (stmts db))"
    "\<not> fails db (Suc (Suc (stmts db)))"
    by (auto split: if_splits)
  let ?recs = "sort_key Timestamp (filter (\<lambda>r. ContextID r = CtxID c \<and> Live r) (records db))"
  let ?db3 = "db\<lparr>stmts := Suc (Suc (Suc (stmts db)))\<rparr>"
  from cm eq nf obtain events rid n where
    inv: "invokeModel (model cw) info ?recs opts = Inr (events, rid, n)"
    by (cases "invokeModel (model cw) info ?recs opts") auto
  obtain r4 db4 where ins: "insertEvents tc (CtxID c) clock 0 [] events ?db3 = (r4, db4)"
    by (cases "insertEvents tc (CtxID c) clock 0 [] events ?db3")
  from cm eq nf inv ins obtain m where r4: "r4 = Inr m"
    by (cases r4) (auto simp: Let_def)
  note k = insertEvents_Inr [OF ins [unfolded r4]]
  have db4: "db4 = ?db3\<lparr>stmts := stmts ?db3 + length events,
              records := records ?db3 @ eventRows tc (CtxID c) clock 0 (next_id ?db3) events,
              next_id := next_id ?db3 + int (length events)\<rparr>"
    and m: "m = (if events = [] then [] else Content (last events))"
    using k by simp_all
  have res: "cw' = cw\<lparr>metrics := metrics cw + n\<rparr> \<and>
           records db' = records db @ eventRows tc (CtxID c) clock 0 (next_id db) events \<and>
           contexts db' =
             (case rid of None \<Rightarrow> contexts db
              | Some r \<Rightarrow> map (\<lambda>x. if CtxID x = CtxID c then x\<lparr>LastResponseID := Some r\<rparr> else x)
                            (contexts db)) \<and>
           fails db' = fails db \<and>
           msg = (if events = [] then [] else Content (last events))"
    using cm nf
    by (cases rid)
       (auto simp: eq inv ins r4 Let_def db4 m UpdateContextLastResponseID_eq split: if_splits)
  show ?thesis
    apply (rule exI [of _ events], rule exI [of _ rid], rule exI [of _ n])
    apply (rule conjI, rule inv)
    apply (rule res)
    done
qed

lemma CallModelWithOpts_total:
  assumes c: "find (\<lambda>c. Name c = currentContext cw) (contexts db) = Some c"
      and info: "find (\<lambda>x. CtxID x = CtxID c) (contexts db) = Some info"
      and inv: "invokeModel (model cw) info
             (sort_key Timestamp (filter (\<lambda>r. ContextID r = CtxID c \<and> Live r) (records db))) opts
             = Inr (events, rid, n)"
      and nf: "\<forall>j. \<not> fails db j"
  shows "\<exists>msg cw' db'. CallModelWithOpts tc cw clock opts db = (Inr msg, cw', db')"
proof -
  let ?db3 = "db\<lparr>stmts := Suc (Suc (Suc (stmts db)))\<rparr>"
  have "\<forall>j. \<not> fails ?db3 j" using nf by simp
  from insertEvents_total [OF this, of tc "CtxID c" clock 0 "[]" events]
  obtain m where "\<exists>db4. insertEvents tc (CtxID c) clock 0 [] events ?db3 = (Inr m, db4)" ..
  then obtain db4 where ins: "insertEvents tc (CtxID c) clock 0 [] events ?db3 = (Inr m, db4)" ..
  from insertEvents_Inr [OF ins] have f4: "fails db4 = fails db" by simp
  show ?thesis
    using nf f4
    by (cases rid)
       (simp_all add: CallModelWithOpts_reads [OF c info] inv ins Let_def UpdateContextLastResponseID_eq)
qed

lemma CallModelWithOpts_keeps_context:
  assumes c: "find (\<lambda>c. Name c = currentContext cw) (contexts db) = Some c"
      and info: "find (\<lambda>x. CtxID x = CtxID c) (contexts db) = Some info"
      and cm: "CallModelWithOpts tc cw clock opts db = (Inr msg, cw', db')"
  shows "(\<exists>c3. find (\<lambda>c. Name c = currentContext cw') (contexts db') = Some c3) \<and>
         fails db' = fails db"
proof -
  from CallModelWithOpts_Inr [OF c info cm]
  obtain events where "\<exists>rid n. invokeModel (model cw) info
             (sort_key Timestamp (filter (\<lambda>r. ContextID r = CtxID c \<and> Live r) (records db))) opts
             = Inr (events, rid, n) \<and>
           cw' = cw\<lparr>metrics := metrics cw + n\<rparr> \<and>
           records db' = records db @ eventRows tc (CtxID c) clock 0 (next_id db) events \<and>
           contexts db' =
             (case rid of None \<Rightarrow> contexts db
              | Some r \<Rightarrow> map (\<lambda>x. if CtxID x = CtxID c then x\<lparr>LastResponseID := Some r\<rparr> else x)
                            (contexts db)) \<and>
           fails db' = fails db \<and>
           msg = (if events = [] then [] else Content (last events))" ..
  then obtain rid where "\<exists>n. invokeModel (model cw) info
             (sort_key Timestamp (filter (\<lambda>r. ContextID r = CtxID c \<and> Live r) (records db))) opts
             = Inr (events, rid, n) \<and>
           cw' = cw\<lparr>metrics := metrics cw + n\<rparr> \<and>
           records db' = records db @ eventRows tc (CtxID c) clock 0 (next_id db) events \<and>
           contexts db' =
             (case rid of None \<Rightarrow> contexts db
              | Some r \<Rightarrow> map (\<lambda>x. if CtxID x = CtxID c then x\<lparr>LastResponseID := Some r\<rparr> else x)
                            (contexts db)) \<and>
           fails db' = fails db \<and>
           msg = (if events = [] then [] else Content (last events))" ..
  then obtain n where k: "invokeModel (model cw) info
             (sort_key Timestamp (filter (\<lambda>r. ContextID r = CtxID c \<and> Live r) (records db))) opts
             = Inr (events, rid, n) \<and>
           cw' = cw\<lparr>metrics := metrics cw + n\<rparr> \<and>
           records db' = records db @ eventRows tc (CtxID c) clock 0 (next_id db) events \<and>
           contexts db' =
             (case rid of None \<Rightarrow> contexts db
              | Some r \<Rightarrow> map (\<lambda>x. if CtxID x = CtxID c then x\<lparr>LastResponseID := Some r\<rparr> else x)
                            (contexts db)) \<and>
           fails db' = fails db \<and>
           msg = (if events = [] then [] else Content (last events))" ..
  from k have cw': "cw' = cw\<lparr>metrics := metrics cw + n\<rparr>" by simp
  from k have ctx: "contexts db' =
             (case rid of None \<Rightarrow> contexts db
              | Some r \<Rightarrow> map (\<lambda>x. if CtxID x = CtxID c then x\<lparr>LastResponseID := Some r\<rparr> else x)
                            (contexts db))" by simp
  from k have f: "fails db' = fails db" by simp
  have "\<exists>c3. find (\<lambda>c. Name c = currentContext cw') (contexts db') = Some c3"
  proof (cases rid)
    case None
    then show ?thesis using c by (simp add: ctx cw')
  next
    case (Some r)
    have "find (\<lambda>c. Name c = currentContext cw)
            (map (\<lambda>x. if CtxID x = CtxID c then x\<lparr>LastResponseID := Some r\<rparr> else x) (contexts db))
          = map_option (\<lambda>x. if CtxID x = CtxID c then x\<lparr>LastResponseID := Some r\<rparr> else x)
              (find (\<lambda>c. Name c = currentContext cw) (contexts db))"
      by (rule find_Name_map) simp
    then show ?thesis using c Some by (simp add: ctx cw')
  qed
  with f show ?thesis by simp
qed

text \<open>
  Claim C2. Let the current context exist with its threading flag set, and let the
  adapter not implement \<^verbatim>\<open>ServerSideThreadingCapable\<close>. Then \<open>CallModelWithOpts\<close> returns
  an error, the session and the tables are unchanged (no record is stored), and when the
  store answers the three reads the error is \<open>ErrNoThreadingSupport\<close>: there is no
  fallback to the client-side call.
\<close>

theorem C2_no_threading_adapter_fails:
  assumes "find (\<lambda>c. Name c = currentContext cw) (contexts db) = Some c"
      and "find (\<lambda>x. CtxID x = CtxID c) (contexts db) = Some info"
      and "UseServerSideThreading info"
      and "ServerSideThreadingCapable (model cw) = None"
  shows "(\<exists>e db'. CallModelWithOpts tc cw clock opts db = (Inl e, cw, db') \<and>
            contexts db' = contexts db \<and> records db' = records db \<and> next_id db' = next_id db)
       \<and> ((\<forall>j<3. \<not> fails db (stmts db + j)) \<longrightarrow>
            CallModelWithOpts tc cw clock opts db =
              (Inl ErrNoThreadingSupport, cw, db\<lparr>stmts := stmts db + 3\<rparr>))"
proof -
  have inv: "invokeModel (model cw) info recs opts = Inl ErrNoThreadingSupport" for recs
    using assms(3,4) by (simp add: invokeModel_def)
  note eq = CallModelWithOpts_reads [OF assms(1,2), of tc clock opts, unfolded inv sum.case]
  show ?thesis
  proof (intro conjI impI)
    show "\<exists>e db'. CallModelWithOpts tc cw clock opts db = (Inl e, cw, db') \<and>
            contexts db' = contexts db \<and> records db' = records db \<and> next_id db' = next_id db"
      unfolding eq by simp
  next
    assume "\<forall>j<3. \<not> fails db (stmts db + j)"
    then have "\<not> fails db (stmts db + 0)" "\<not> fails db (stmts db + 1)" "\<not> fails db (stmts db + 2)"
      by (simp_all only: numeral_3_eq_3 less_Suc_eq One_nat_def numeral_2_eq_2 simp_thms)
    then show "CallModelWithOpts tc cw clock opts db =
              (Inl ErrNoThreadingSupport, cw, db\<lparr>stmts := stmts db + 3\<rparr>)"
      unfolding eq by (simp add: numeral_3_eq_3)
  qed
qed

theorem C2_no_threading_adapter_fails_witness:
  "CallModelWithOpts charCount (demoWindow (stubModel [reply ''hi''] 3)) (\<lambda>i. 5)
     \<lparr>DisableTools = False\<rparr>
     (demoDB\<lparr>contexts := [demoContext\<lparr>UseServerSideThreading := True\<rparr>]\<rparr>)
   = (Inl ErrNoThreadingSupport, demoWindow (stubModel [reply ''hi''] 3),
      demoDB\<lparr>contexts := [demoContext\<lparr>UseServerSideThreading := True\<rparr>], stmts := 3\<rparr>)"
proof -
  let ?cw = "demoWindow (stubModel [reply ''hi''] 3)"
  let ?c = "demoContext\<lparr>UseServerSideThreading := True\<rparr>"
  let ?db = "demoDB\<lparr>contexts := [?c]\<rparr>"
  have h1: "find (\<lambda>c. Name c = currentContext ?cw) (contexts ?db) = Some ?c"
    by (simp add: demo_defs)
  have h2: "find (\<lambda>x. CtxID x = CtxID ?c) (contexts ?db) = Some ?c"
    by (simp add: demo_defs)
  have h3: "UseServerSideThreading ?c" by simp
  have h4: "ServerSideThreadingCapable (model ?cw) = None" by (simp add: demo_defs)
  have nf: "\<forall>j<3. \<not> fails ?db (stmts ?db + j)" by (simp add: demo_defs)
  from C2_no_threading_adapter_fails [OF h1 h2 h3 h4, of charCount "\<lambda>i. 5" "\<lparr>DisableTools = False\<rparr>",
      THEN conjunct2, THEN mp, OF nf]
  show ?thesis by (simp add: demoDB_def)
qed

text \<open>
  Claim C3. Let the reads of \<open>CallModelWithOpts\<close> succeed and the adapter return a batch
  of events, and let the store accept the first \<open>k\<close> inserts of the batch and fail the
  next one. Then the call returns that storage error; the rows of the first \<open>k\<close> events
  are in the table (nothing is rolled back); exactly \<open>k + 1\<close> insert statements were
  sent, so the failed insert was not tried again and no later event was attempted; and
  the token counter has already been incremented.
\<close>

theorem C3_partial_persistence:
  assumes "find (\<lambda>c. Name c = currentContext cw) (contexts db) = Some c"
      and "find (\<lambda>x. CtxID x = CtxID c) (contexts db) = Some info"
      and "invokeModel (model cw) info
             (sort_key Timestamp (filter (\<lambda>r. ContextID r = CtxID c \<and> Live r) (records db))) opts
           = Inr (events, rid, n)"
      and "k < length events"
      and "\<forall>j<3 + k. \<not> fails db (stmts db + j)"
      and "fails db (stmts db + 3 + k)"
  shows "CallModelWithOpts tc cw clock opts db =
           (Inl ErrStorage, cw\<lparr>metrics := metrics cw + n\<rparr>,
            db\<lparr>stmts := stmts db + 3 + k + 1,
               records := records db @ eventRows tc (CtxID c) clock 0 (next_id db) (take k events),
               next_id := next_id db + int k\<rparr>)"
proof -
  have "0 < 3 + k" "1 < 3 + k" "2 < 3 + k" by simp_all
  with assms(5) have "\<not> fails db (stmts db + 0)" "\<not> fails db (stmts db + 1)" "\<not> fails db (stmts db + 2)"
    by blast+
  then have nf: "\<not> fails db (stmts db)" "\<not> fails db (Suc (stmts db))" "\<not> fails db (Suc (Suc (stmts db)))"
    by simp_all
  let ?db3 = "db\<lparr>stmts := Suc (Suc (Suc (stmts db)))\<rparr>"
  have p2: "\<forall>j<k. \<not> fails ?db3 (stmts ?db3 + j)"
  proof (intro allI impI)
    fix j assume "j < k"
    then have "3 + j < 3 + k" by simp
    with assms(5) have "\<not> fails db (stmts db + (3 + j))" by blast
    then show "\<not> fails ?db3 (stmts ?db3 + j)" by (simp add: numeral_3_eq_3)
  qed
  have p3: "fails ?db3 (stmts ?db3 + k)" using assms(6) by (simp add: numeral_3_eq_3)
  note ins = insertEvents_fail_at [OF assms(4) p2 p3, of tc "CtxID c" clock 0 "[]"]
  show ?thesis
    using nf
    by (simp add: CallModelWithOpts_reads [OF assms(1,2)] assms(3) ins Let_def numeral_3_eq_3)
qed

theorem C3_partial_persistence_witness:
  "CallModelWithOpts charCount
     (demoWindow (stubModel [(reply ''echo({})'')\<lparr>Source := ToolCall\<rparr>,
                             (reply ''{}'')\<lparr>Source := ToolOutput\<rparr>, reply ''done''] 5))
     (\<lambda>i. 10 + i) \<lparr>DisableTools = False\<rparr> (demoDB\<lparr>fails := (\<lambda>n. n = 4)\<rparr>)
   = (Inl ErrStorage,
      (demoWindow (stubModel [(reply ''echo({})'')\<lparr>Source := ToolCall\<rparr>,
                             (reply ''{}'')\<lparr>Source := ToolOutput\<rparr>, reply ''done''] 5))
        \<lparr>metrics := 5\<rparr>,
      demoDB\<lparr>fails := (\<lambda>n. n = 4), stmts := 5,
         records := [\<lparr>ID = 1, Timestamp = 10, Source = ToolCall, Content = ''echo({})'',
                      Live = True, EstTokens = 8, ContextID = ''id-demo'', ResponseID = None\<rparr>],
         next_id := 2\<rparr>)"
proof -
  let ?evs = "[(reply ''echo({})'')\<lparr>Source := ToolCall\<rparr>,
               (reply ''{}'')\<lparr>Source := ToolOutput\<rparr>, reply ''done'']"
  let ?cw = "demoWindow (stubModel ?evs 5)"
  let ?db = "demoDB\<lparr>fails := (\<lambda>n. n = 4)\<rparr>"
  have h1: "find (\<lambda>c. Name c = currentContext ?cw) (contexts ?db) = Some demoContext"
    by (simp add: demo_defs)
  have h2: "find (\<lambda>x. CtxID x = CtxID demoContext) (contexts ?db) = Some demoContext"
    by (simp add: demo_defs)
  have h3: "invokeModel (model ?cw) demoContext
             (sort_key Timestamp
                (filter (\<lambda>r. ContextID r = CtxID demoContext \<and> Live r) (records ?db)))
             \<lparr>DisableTools = False\<rparr>
           = Inr (?evs, None, 5)"
    by (simp add: invokeModel_def demo_defs)
  have h4: "1 < length ?evs" by simp
  have h5: "\<forall>j<3 + 1. \<not> fails ?db (stmts ?db + j)" by (simp add: demo_defs)
  have h6: "fails ?db (stmts ?db + 3 + 1)" by (simp add: demo_defs)
  from C3_partial_persistence [OF h1 h2 h3 h4 h5 h6, of charCount "\<lambda>i. 10 + i"]
  show ?thesis by (simp add: demo_defs)
qed

section \<open>Token usage\<close>

text \<open>
  A session built by \<open>NewContextWindowWithThreading\<close> starts with its counter at 0 and
  its context present in the store.
\<close>

lemma NewContextWindow_fresh:
  assumes "NewContextWindowWithThreading m name sst fresh newID now db = (Inr cw, db')"
  shows "metrics cw = 0 \<and> (\<exists>c. find (\<lambda>c. Name c = currentContext cw) (contexts db') = Some c)"
  using assms
  by (auto simp: NewContextWindowWithThreading_def Let_def GetContextByName_eq
      split: if_splits option.splits prod.splits sum.splits dest!: Create_first)

lemma AddPrompt_eq:
  assumes "find (\<lambda>c. Name c = currentContext cw) (contexts db) = Some c"
  shows "AddPrompt tc cw text now db =
    (if fails db (stmts db) then (Inl ErrStorage, db\<lparr>stmts := Suc (stmts db)\<rparr>)
     else if fails db (Suc (stmts db)) then (Inl ErrStorage, db\<lparr>stmts := Suc (Suc (stmts db))\<rparr>)
     else (Inr (),
           db\<lparr>stmts := Suc (Suc (stmts db)),
              records := records db @
                [\<lparr>ID = next_id db, Timestamp = now, Source = Prompt, Content = text, Live = True,
                  EstTokens = tc text, ContextID = CtxID c, ResponseID = None\<rparr>],
              next_id := next_id db + 1\<rparr>))"
  using assms
  by (simp add: AddPrompt_def InsertRecord_def getContextIDByName_eq InsertRecordWithResponseID_eq
      thenE_def ret_def)

lemma TokenUsage_eq:
  assumes "find (\<lambda>c. Name c = currentContext cw) (contexts db) = Some c"
  shows "TokenUsage cw db =
    (if fails db (stmts db) then (Inl ErrStorage, db\<lparr>stmts := Suc (stmts db)\<rparr>)
     else if fails db (Suc (stmts db)) then (Inl ErrStorage, db\<lparr>stmts := Suc (Suc (stmts db))\<rparr>)
     else (Inr \<lparr>tuLive = sum_list (map EstTokens
                     (filter (\<lambda>r. ContextID r = CtxID c \<and> Live r) (records db))),
                tuTotal = metrics cw, tuMax = maxTokens cw,
                tuPercent =
                  (if maxTokens cw > 0
                   then real_of_int (sum_list (map EstTokens
                     (filter (\<lambda>r. ContextID r = CtxID c \<and> Live r) (records db))))
                        / real_of_int (maxTokens cw)
                   else 0)\<rparr>,
           db\<lparr>stmts := Suc (Suc (stmts db))\<rparr>))"
  using assms
  by (simp add: TokenUsage_def LiveTokens_def TotalTokens_def getContextIDByName_eq ListLiveRecords_eq
      thenE_def ret_def sum_list_sort_key)

lemma token_usage_steps:
  assumes c: "find (\<lambda>c. Name c = currentContext cw) (contexts db) = Some c"
      and info: "find (\<lambda>x. CtxID x = CtxID c) (contexts db) = Some info"
      and empty: "filter (\<lambda>r. ContextID r = CtxID c \<and> Live r) (records db) = []"
      and inv: "invokeModel (model cw) info
             [\<lparr>ID = next_id db, Timestamp = now, Source = Prompt, Content = prompt, Live = True,
               EstTokens = tc prompt, ContextID = CtxID c, ResponseID = None\<rparr>] opts
           = Inr (events, rid, n)"
      and a1: "AddPrompt tc cw prompt now db = (Inr u, db1)"
      and u1: "TokenUsage cw db1 = (Inr usage1, db2)"
      and cm: "CallModelWithOpts tc cw clock opts db2 = (Inr msg, cw3, db3)"
      and u3: "TokenUsage cw3 db3 = (Inr usage3, db4)"
  shows "tuLive usage1 = tc prompt \<and> tuTotal usage1 = metrics cw \<and> tuTotal usage3 = metrics cw + n \<and>
         tuLive usage3 = tuLive usage1 + sum_list (map (\<lambda>e. tc (Content e)) (filter Live events))"
proof -
  let ?p = "\<lparr>ID = next_id db, Timestamp = now, Source = Prompt, Content = prompt, Live = True,
               EstTokens = tc prompt, ContextID = CtxID c, ResponseID = None\<rparr>"
  from a1 have db1: "db1 = db\<lparr>stmts := Suc (Suc (stmts db)), records := records db @ [?p],
              next_id := next_id db + 1\<rparr>"
    by (auto simp: AddPrompt_eq [OF c] split: if_splits)
  have c1: "find (\<lambda>c. Name c = currentContext cw) (contexts db1) = Some c"
    using c by (simp add: db1)
  have live1: "filter (\<lambda>r. ContextID r = CtxID c \<and> Live r) (records db1) = [?p]"
    using empty by (simp add: db1)
  from u1 have usage1: "tuLive usage1 = tc prompt" "tuTotal usage1 = metrics cw"
    and db2: "db2 = db1\<lparr>stmts := Suc (Suc (stmts db1))\<rparr>"
    by (auto simp: TokenUsage_eq [OF c1] live1 split: if_splits)
  have c2: "find (\<lambda>c. Name c = currentContext cw) (contexts db2) = Some c"
    using c by (simp add: db2 db1)
  have info2: "find (\<lambda>x. CtxID x = CtxID c) (contexts db2) = Some info"
    using info by (simp add: db2 db1)
  have recs2: "sort_key Timestamp (filter (\<lambda>r. ContextID r = CtxID c \<and> Live r) (records db2)) = [?p]"
    using live1 by (simp add: db2)
  from CallModelWithOpts_Inr [OF c2 info2 cm, unfolded recs2]
  obtain events' where "\<exists>rid' n'. invokeModel (model cw) info [?p] opts = Inr (events', rid', n') \<and>
           cw3 = cw\<lparr>metrics := metrics cw + n'\<rparr> \<and>
           records db3 = records db2 @ eventRows tc (CtxID c) clock 0 (next_id db2) events' \<and>
           contexts db3 =
             (case rid' of None \<Rightarrow> contexts db2
              | Some r \<Rightarrow> map (\<lambda>x. if CtxID x = CtxID c then x\<lparr>LastResponseID := Some r\<rparr> else x)
                            (contexts db2)) \<and>
           fails db3 = fails db2 \<and>
           msg = (if events' = [] then [] else Content (last events'))" ..
  then obtain rid' where "\<exists>n'. invokeModel (model cw) info [?p] opts = Inr (events', rid', n') \<and>
           cw3 = cw\<lparr>metrics := metrics cw + n'\<rparr> \<and>
           records db3 = records db2 @ eventRows tc (CtxID c) clock 0 (next_id db2) events' \<and>
           contexts db3 =
             (case rid' of None \<Rightarrow> contexts db2
              | Some r \<Rightarrow> map (\<lambda>x. if CtxID x = CtxID c then x\<lparr>LastResponseID := Some r\<rparr> else x)
                            (contexts db2)) \<and>
           fails db3 = fails db2 \<and>
           msg = (if events' = [] then [] else Content (last events'))" ..
  then obtain n' where k: "invokeModel (model cw) info [?p] opts = Inr (events', rid', n') \<and>
           cw3 = cw\<lparr>metrics := metrics cw + n'\<rparr> \<and>
           records db3 = records db2 @ eventRows tc (CtxID c) clock 0 (next_id db2) events' \<and>
           contexts db3 =
             (case rid' of None \<Rightarrow> contexts db2
              | Some r \<Rightarrow> map (\<lambda>x. if CtxID x = CtxID c then x\<lparr>LastResponseID := Some r\<rparr> else x)
                            (contexts db2)) \<and>
           fails db3 = fails db2 \<and>
           msg = (if events' = [] then [] else Content (last events'))" ..
  from k inv have same: "events' = events" "rid' = rid" "n' = n" by simp_all
  from k have cw3: "cw3 = cw\<lparr>metrics := metrics cw + n\<rparr>" by (simp add: same)
  from k have recs3: "records db3 = records db2 @ eventRows tc (CtxID c) clock 0 (next_id db2) events"
    by (simp add: same)
  from k have ctx3: "contexts db3 =
             (case rid of None \<Rightarrow> contexts db2
              | Some r \<Rightarrow> map (\<lambda>x. if CtxID x = CtxID c then x\<lparr>LastResponseID := Some r\<rparr> else x)
                            (contexts db2))"
    by (simp add: same)
  have "\<exists>c3. find (\<lambda>c. Name c = currentContext cw3) (contexts db3) = Some c3 \<and> CtxID c3 = CtxID c"
  proof (cases rid)
    case None
    then show ?thesis using c2 by (simp add: ctx3 cw3)
  next
    case (Some r)
    have "find (\<lambda>c. Name c = currentContext cw)
            (map (\<lambda>x. if CtxID x = CtxID c then x\<lparr>LastResponseID := Some r\<rparr> else x) (contexts db2))
          = map_option (\<lambda>x. if CtxID x = CtxID c then x\<lparr>LastResponseID := Some r\<rparr> else x)
              (find (\<lambda>c. Name c = currentContext cw) (contexts db2))"
      by (rule find_Name_map) simp
    then show ?thesis using c2 Some by (simp add: ctx3 cw3)
  qed
  then obtain c3 where c3: "find (\<lambda>c. Name c = currentContext cw3) (contexts db3) = Some c3 \<and>
      CtxID c3 = CtxID c" ..
  have live3: "sum_list (map EstTokens (filter (\<lambda>r. ContextID r = CtxID c \<and> Live r) (records db3)))
      = tc prompt + sum_list (map (\<lambda>e. tc (Content e)) (filter Live events))"
    using live1 by (simp add: recs3 db2 eventRows_live_sum)
  from u3 have "tuLive usage3 =
      sum_list (map EstTokens (filter (\<lambda>r. ContextID r = CtxID c3 \<and> Live r) (records db3)))"
    "tuTotal usage3 = metrics cw3"
    by (auto simp: TokenUsage_eq [OF c3 [THEN conjunct1]] split: if_splits)
  then have "tuLive usage3 = tc prompt + sum_list (map (\<lambda>e. tc (Content e)) (filter Live events))"
    "tuTotal usage3 = metrics cw + n"
    by (simp_all add: c3 [THEN conjunct2] live3 cw3)
  with usage1 show ?thesis by simp
qed

lemma token_usage_total:
  assumes c: "find (\<lambda>c. Name c = currentContext cw) (contexts db) = Some c"
      and info: "find (\<lambda>x. CtxID x = CtxID c) (contexts db) = Some info"
      and empty: "filter (\<lambda>r. ContextID r = CtxID c \<and> Live r) (records db) = []"
      and inv: "invokeModel (model cw) info
             [\<lparr>ID = next_id db, Timestamp = now, Source = Prompt, Content = prompt, Live = True,
               EstTokens = tc prompt, ContextID = CtxID c, ResponseID = None\<rparr>] opts
           = Inr (events, rid, n)"
      and nf: "\<forall>j. \<not> fails db j"
  shows "\<exists>db1 usage1 db2 msg cw3 db3 usage3 db4.
           AddPrompt tc cw prompt now db = (Inr (), db1) \<and>
           TokenUsage cw db1 = (Inr usage1, db2) \<and>
           CallModelWithOpts tc cw clock opts db2 = (Inr msg, cw3, db3) \<and>
           TokenUsage cw3 db3 = (Inr usage3, db4)"
proof -
  let ?p = "\<lparr>ID = next_id db, Timestamp = now, Source = Prompt, Content = prompt, Live = True,
               EstTokens = tc prompt, ContextID = CtxID c, ResponseID = None\<rparr>"
  let ?db1 = "db\<lparr>stmts := Suc (Suc (stmts db)), records := records db @ [?p],
              next_id := next_id db + 1\<rparr>"
  have a1: "AddPrompt tc cw prompt now db = (Inr (), ?db1)"
    using nf by (simp add: AddPrompt_eq [OF c])
  have c1: "find (\<lambda>c. Name c = currentContext cw) (contexts ?db1) = Some c"
    using c by simp
  let ?db2 = "?db1\<lparr>stmts := Suc (Suc (stmts ?db1))\<rparr>"
  obtain usage1 where u1: "TokenUsage cw ?db1 = (Inr usage1, ?db2)"
    using nf by (simp add: TokenUsage_eq [OF c1])
  have c2: "find (\<lambda>c. Name c = currentContext cw) (contexts ?db2) = Some c"
    using c by simp
  have info2: "find (\<lambda>x. CtxID x = CtxID c) (contexts ?db2) = Some info"
    using info by simp
  have inv2: "invokeModel (model cw) info
      (sort_key Timestamp (filter (\<lambda>r. ContextID r = CtxID c \<and> Live r) (records ?db2))) opts
      = Inr (events, rid, n)"
    using empty inv by simp
  have nf2: "\<forall>j. \<not> fails ?db2 j" using nf by simp
  from CallModelWithOpts_total [OF c2 info2 inv2 nf2, of tc clock]
  obtain msg where "\<exists>cw3 db3. CallModelWithOpts tc cw clock opts ?db2 = (Inr msg, cw3, db3)" ..
  then obtain cw3 where "\<exists>db3. CallModelWithOpts tc cw clock opts ?db2 = (Inr msg, cw3, db3)" ..
  then obtain db3 where cm: "CallModelWithOpts tc cw clock opts ?db2 = (Inr msg, cw3, db3)" ..
  note kc = CallModelWithOpts_keeps_context [OF c2 info2 cm]
  from kc obtain c3 where c3: "find (\<lambda>c. Name c = currentContext cw3) (contexts db3) = Some c3"
    by (elim conjE exE)
  from kc nf have nf3: "\<forall>j. \<not> fails db3 j" by simp
  obtain usage3 db4 where u3: "TokenUsage cw3 db3 = (Inr usage3, db4)"
    using nf3 by (simp add: TokenUsage_eq [OF c3])
  show ?thesis
    apply (rule exI [of _ ?db1], rule exI [of _ usage1], rule exI [of _ ?db2], rule exI [of _ msg],
        rule exI [of _ cw3], rule exI [of _ db3], rule exI [of _ usage3], rule exI [of _ db4])
    apply (rule conjI, rule a1)
    apply (rule conjI, rule u1)
    apply (rule conjI, rule cm)
    apply (rule u3)
    done
qed

text \<open>
  Claim C7. Take a session that has made no model call yet (its counter is 0) and
  whose context has no live record. After \<open>AddPrompt\<close> of a text, \<open>TokenUsage\<close> reports
  as live tokens the tokenizer's count of that text, and 0 as total. After one
  \<open>CallModelWithOpts\<close> in which the adapter returns a list of events and reports \<open>n\<close>
  tokens used, the total is \<open>n\<close>: the adapter's figure is added to the counter, nothing
  is counted again locally. The live tokens have grown by the tokenizer's count of the
  content of every live event stored, which for a single live response is that
  record's estimated token count. On a store that fails no statement the four steps
  succeed. The claim is the instance with the text \<open>''a b c''\<close> and \<open>n = 5\<close>.
\<close>

theorem C7_token_usage:
  assumes c: "find (\<lambda>c. Name c = currentContext cw) (contexts db) = Some c"
      and info: "find (\<lambda>x. CtxID x = CtxID c) (contexts db) = Some info"
      and fresh: "metrics cw = 0"
      and empty: "filter (\<lambda>r. ContextID r = CtxID c \<and> Live r) (records db) = []"
      and inv: "invokeModel (model cw) info
             [\<lparr>ID = next_id db, Timestamp = now, Source = Prompt, Content = prompt, Live = True,
               EstTokens = tc prompt, ContextID = CtxID c, ResponseID = None\<rparr>] opts
           = Inr (events, rid, n)"
  shows "(\<forall>u db1 usage1 db2 msg cw3 db3 usage3 db4.
            AddPrompt tc cw prompt now db = (Inr u, db1) \<and>
            TokenUsage cw db1 = (Inr usage1, db2) \<and>
            CallModelWithOpts tc cw clock opts db2 = (Inr msg, cw3, db3) \<and>
            TokenUsage cw3 db3 = (Inr usage3, db4) \<longrightarrow>
            tuLive usage1 = tc prompt \<and> tuTotal usage1 = 0 \<and> tuTotal usage3 = n \<and>
            tuLive usage3 =
              tuLive usage1 + sum_list (map (\<lambda>e. tc (Content e)) (filter Live events)))
       \<and> ((\<forall>j. \<not> fails db j) \<longrightarrow>
            (\<exists>db1 usage1 db2 msg cw3 db3 usage3 db4.
               AddPrompt tc cw prompt now db = (Inr (), db1) \<and>
               TokenUsage cw db1 = (Inr usage1, db2) \<and>
               CallModelWithOpts tc cw clock opts db2 = (Inr msg, cw3, db3) \<and>
               TokenUsage cw3 db3 = (Inr usage3, db4)))"
proof (intro conjI allI impI)
  fix u db1 usage1 db2 msg cw3 db3 usage3 db4
  assume a: "AddPrompt tc cw prompt now db = (Inr u, db1) \<and>
            TokenUsage cw db1 = (Inr usage1, db2) \<and>
            CallModelWithOpts tc cw clock opts db2 = (Inr msg, cw3, db3) \<and>
            TokenUsage cw3 db3 = (Inr usage3, db4)"
  note k = token_usage_steps [where tc = tc and prompt = prompt, OF c info empty inv a [THEN conjunct1] a [THEN conjunct2, THEN conjunct1]
      a [THEN conjunct2, THEN conjunct2, THEN conjunct1]
      a [THEN conjunct2, THEN conjunct2, THEN conjunct2], unfolded fresh]
  show "tuLive usage1 = tc prompt" using k by simp
  show "tuTotal usage1 = 0" using k by simp
  show "tuTotal usage3 = n" using k by simp
  show "tuLive usage3 =
              tuLive usage1 + sum_list (map (\<lambda>e. tc (Content e)) (filter Live events))"
    using k by simp
next
  assume "\<forall>j. \<not> fails db j"
  from token_usage_total [where tc = tc and prompt = prompt, OF c info empty inv this]
  show "\<exists>db1 usage1 db2 msg cw3 db3 usage3 db4.
               AddPrompt tc cw prompt now db = (Inr (), db1) \<and>
               TokenUsage cw db1 = (Inr usage1, db2) \<and>
               CallModelWithOpts tc cw clock opts db2 = (Inr msg, cw3, db3) \<and>
               TokenUsage cw3 db3 = (Inr usage3, db4)" .
qed

theorem C7_token_usage_witness:
  "\<exists>db1 usage1 db2 msg cw3 db3 usage3 db4.
     AddPrompt charCount (demoWindow (stubModel [reply ''z''] 5)) ''a b c'' 10 demoDB = (Inr (), db1) \<and>
     TokenUsage (demoWindow (stubModel [reply ''z''] 5)) db1 = (Inr usage1, db2) \<and>
     CallModelWithOpts charCount (demoWindow (stubModel [reply ''z''] 5)) (\<lambda>i. 20)
        \<lparr>DisableTools = False\<rparr> db2 = (Inr msg, cw3, db3) \<and>
     TokenUsage cw3 db3 = (Inr usage3, db4) \<and>
     tuLive usage1 = 5 \<and> tuTotal usage1 = 0 \<and> tuTotal usage3 = 5 \<and> tuLive usage3 = 6"
proof -
  let ?cw = "demoWindow (stubModel [reply ''z''] 5)"
  have h1: "find (\<lambda>c. Name c = currentContext ?cw) (contexts demoDB) = Some demoContext"
    by (simp add: demo_defs)
  have h2: "find (\<lambda>x. CtxID x = CtxID demoContext) (contexts demoDB) = Some demoContext"
    by (simp add: demo_defs)
  have h3: "metrics ?cw = 0" by (simp add: demo_defs)
  have h4: "filter (\<lambda>r. ContextID r = CtxID demoContext \<and> Live r) (records demoDB) = []"
    by (simp add: demo_defs)
  have h5: "invokeModel (model ?cw) demoContext
             [\<lparr>ID = next_id demoDB, Timestamp = 10, Source = Prompt, Content = ''a b c'', Live = True,
               EstTokens = charCount ''a b c'', ContextID = CtxID demoContext, ResponseID = None\<rparr>]
             \<lparr>DisableTools = False\<rparr>
           = Inr ([reply ''z''], None, 5)"
    by (simp add: invokeModel_def demo_defs)
  have nf: "\<forall>j. \<not> fails demoDB j" by (simp add: demo_defs)
  note inst = C7_token_usage [where tc = charCount and prompt = "''a b c''" and clock = "\<lambda>i. 20",
      OF h1 h2 h3 h4 h5]
  from inst [THEN conjunct2, THEN mp, OF nf]
  obtain db1 usage1 db2 msg cw3 db3 usage3 db4 where
    k: "AddPrompt charCount ?cw ''a b c'' 10 demoDB = (Inr (), db1) \<and>
     TokenUsage ?cw db1 = (Inr usage1, db2) \<and>
     CallModelWithOpts charCount ?cw (\<lambda>i. 20) \<lparr>DisableTools = False\<rparr> db2 = (Inr msg, cw3, db3) \<and>
     TokenUsage cw3 db3 = (Inr usage3, db4)"
    by (elim exE)
  from inst [THEN conjunct1, rule_format, OF k]
  have "tuLive usage1 = 5 \<and> tuTotal usage1 = 0 \<and> tuTotal usage3 = 5 \<and> tuLive usage3 = 6"
    by (simp add: demo_defs)
  with k show ?thesis
    apply (elim conjE)
    apply (rule exI [of _ db1], rule exI [of _ usage1], rule exI [of _ db2], rule exI [of _ msg],
        rule exI [of _ cw3], rule exI [of _ db3], rule exI [of _ usage3], rule exI [of _ db4])
    apply (intro conjI)
           apply assumption+
    done
qed

section \<open>Deleting the current context\<close>

text \<open>
  When the current context is deleted, the session is moved to another context first.
  This works whenever the deleted context is not named \<open>default\<close>, given that the
  identifiers of the contexts are distinct (they are the primary key):
  \<open>delete_current_keeps_valid\<close>. The replacement \<open>default\<close> is looked up with
  get-or-create, so when the only context is itself named \<open>default\<close> the replacement is
  the context that is then deleted.
\<close>

lemma find_Some_iff_ex: "(\<exists>x. find P xs = Some x) \<longleftrightarrow> (\<exists>x\<in>set xs. P x)"
  by (induction xs) auto

lemma DeleteContextByName_Inr:
  "DeleteContextByName name db = (Inr u, db') \<Longrightarrow>
     \<exists>x. find (\<lambda>c. Name c = name) (contexts db) = Some x \<and>
         contexts db' = filter (\<lambda>c. CtxID c \<noteq> CtxID x) (contexts db)"
  by (auto simp: DeleteContextByName_def DeleteContext_def GetContextByName_eq transaction_def io_defs
      split: if_splits option.splits prod.splits sum.splits)

lemma ListContexts_Inr:
  "ListContexts db = (Inr ctxs, db1) \<Longrightarrow>
     set ctxs = set (contexts db) \<and> length ctxs = length (contexts db) \<and> contexts db1 = contexts db"
  by (auto simp: ListContexts_def io_defs split: if_splits)

lemma CtxID_upd:
  "CtxID \<circ> (\<lambda>c. if CtxID c = i then c\<lparr>UseServerSideThreading := b\<rparr> else c) = CtxID"
  by (rule ext) simp

lemma Create_keeps_distinct:
  assumes "CreateContextWithThreading n sst newID now db = (Inr c, db')"
      and "distinct (map CtxID (contexts db))"
  shows "distinct (map CtxID (contexts db'))"
  using assms
  by (auto simp: CreateContextWithThreading_def GetContextByName_eq SetContextServerSideThreading_eq
      CtxID_upd thenE_def stmt_def Let_def list_ex_iff
      split: if_splits option.splits)

lemma distinct_ids_differ:
  "distinct (map CtxID cs) \<Longrightarrow> x \<in> set cs \<Longrightarrow> y \<in> set cs \<Longrightarrow> x \<noteq> y \<Longrightarrow> CtxID x \<noteq> CtxID y"
  by (auto simp: distinct_map dest: inj_onD)

lemma survivor_found:
  assumes d: "distinct (map CtxID cs)"
      and x: "x \<in> set cs" and y: "y \<in> set cs" and ne: "x \<noteq> y"
  shows "\<exists>z. find (\<lambda>c. Name c = Name y) (filter (\<lambda>c. CtxID c \<noteq> CtxID x) cs) = Some z"
proof -
  from distinct_ids_differ [OF d y x] ne have "CtxID y \<noteq> CtxID x" by auto
  with y have "y \<in> set (filter (\<lambda>c. CtxID c \<noteq> CtxID x) cs)" by simp
  then have "\<exists>z\<in>set (filter (\<lambda>c. CtxID c \<noteq> CtxID x) cs). Name z = Name y" by (rule bexI [rotated]) simp
  then show ?thesis by (simp only: find_Some_iff_ex)
qed

lemma other_element:
  assumes "distinct (map CtxID cs)" and "1 < length cs" and "x \<in> set cs"
  shows "\<exists>y\<in>set cs. y \<noteq> x"
proof (rule ccontr)
  assume "\<not> (\<exists>y\<in>set cs. y \<noteq> x)"
  then have "set cs \<subseteq> {x}" by auto
  then have "card (set cs) \<le> card {x}" by (rule card_mono [rotated]) simp
  then have "card (set cs) \<le> 1" by simp
  moreover from assms(1) have "distinct cs" by (simp add: distinct_map)
  then have "card (set cs) = length cs" by (rule distinct_card)
  ultimately show False using assms(2) by simp
qed

lemma delete_current_keeps_valid:
  assumes ok: "ContextWindow_DeleteContext cw name newID now db = (Inr u, cw', db')"
      and cur: "name = currentContext cw"
      and nd: "name \<noteq> ''default''"
      and pk: "distinct (map CtxID (contexts db))"
  shows "\<exists>c. find (\<lambda>c. Name c = currentContext cw') (contexts db') = Some c"
proof -
  obtain r1 db1 where lc: "ListContexts db = (r1, db1)"
    by (cases "ListContexts db")
  from ok cur lc obtain ctxs where r1: "r1 = Inr ctxs"
    by (cases r1) (auto simp: ContextWindow_DeleteContext_def)
  note l = ListContexts_Inr [OF lc [unfolded r1]]
  show ?thesis
  proof (cases "length ctxs \<le> 1")
    case True
    obtain r2 db2 where cr: "CreateContext ''default'' newID now db1 = (r2, db2)"
      by (cases "CreateContext ''default'' newID now db1")
    from ok cur lc r1 True cr obtain d where r2: "r2 = Inr d"
      by (cases r2) (auto simp: ContextWindow_DeleteContext_def)
    from ok cur lc r1 True cr r2 have cw': "cw' = cw\<lparr>currentContext := ''default''\<rparr>"
      and "\<exists>u'. DeleteContextByName name db2 = (Inr u', db')"
      by (auto simp: ContextWindow_DeleteContext_def split: prod.splits sum.splits)
    then obtain u' where del: "DeleteContextByName name db2 = (Inr u', db')" by (elim exE)
    note cr' = cr [unfolded r2 CreateContext_def]
    from Create_first [OF cr'] have fd: "find (\<lambda>c. Name c = ''default'') (contexts db2) = Some d"
      by simp
    from pk l have "distinct (map CtxID (contexts db1))" by simp
    from Create_keeps_distinct [OF cr' this] have pk2: "distinct (map CtxID (contexts db2))" .
    from DeleteContextByName_Inr [OF del] obtain x where
      x: "find (\<lambda>c. Name c = name) (contexts db2) = Some x \<and>
         contexts db' = filter (\<lambda>c. CtxID c \<noteq> CtxID x) (contexts db2)" ..
    from find_Some_member [OF x [THEN conjunct1]] have xin: "x \<in> set (contexts db2)" "Name x = name"
      by simp_all
    from find_Some_member [OF fd] have din: "d \<in> set (contexts db2)" "Name d = ''default''"
      by simp_all
    from xin din nd have "x \<noteq> d" by auto
    from survivor_found [OF pk2 xin(1) din(1) this] din(2)
    show ?thesis by (simp add: x [THEN conjunct2] cw')
  next
    case False
    from ok cur lc r1 False have
      cw': "cw' = (case find (\<lambda>ctx. Name ctx \<noteq> name) ctxs of
                     Some ctx \<Rightarrow> cw\<lparr>currentContext := Name ctx\<rparr> | None \<Rightarrow> cw)"
      and "\<exists>u'. DeleteContextByName name db1 = (Inr u', db')"
      by (auto simp: ContextWindow_DeleteContext_def split: prod.splits sum.splits)
    then obtain u' where del: "DeleteContextByName name db1 = (Inr u', db')" by (elim exE)
    from pk l have pk1: "distinct (map CtxID (contexts db1))" by simp
    from DeleteContextByName_Inr [OF del] obtain x where
      x: "find (\<lambda>c. Name c = name) (contexts db1) = Some x \<and>
         contexts db' = filter (\<lambda>c. CtxID c \<noteq> CtxID x) (contexts db1)" ..
    from find_Some_member [OF x [THEN conjunct1]] have xin: "x \<in> set (contexts db1)" "Name x = name"
      by simp_all
    show ?thesis
    proof (cases "find (\<lambda>ctx. Name ctx \<noteq> name) ctxs")
      case (Some other)
      from find_Some_member [OF Some] l have oin: "other \<in> set (contexts db1)" "Name other \<noteq> name"
        by simp_all
      with xin have "x \<noteq> other" by auto
      from survivor_found [OF pk1 xin(1) oin(1) this]
      show ?thesis by (simp add: x [THEN conjunct2] cw' Some)
    next
      case None
      from False l have "1 < length (contexts db1)" by simp
      from other_element [OF pk1 this xin(1)] obtain y where y: "y \<in> set (contexts db1)" "y \<noteq> x"
        by auto
      from None have "\<forall>c\<in>set ctxs. Name c = name" by (simp add: find_None_iff)
      with y l have "Name y = name" by simp
      have cwn: "cw' = cw" by (simp add: cw' None)
      from survivor_found [OF pk1 xin(1) y(1) y(2) [symmetric]] \<open>Name y = name\<close>
      have "\<exists>z. find (\<lambda>c. Name c = name) (filter (\<lambda>c. CtxID c \<noteq> CtxID x) (contexts db1)) = Some z"
        by simp
      then show ?thesis by (simp add: x [THEN conjunct2] cwn cur [symmetric])
    qed
  qed
qed

text \<open>
  Claim C10, evaluated where it fails. The current context of the session is named
  \<open>default\<close> and is the only context of the store. \<open>ContextWindow_DeleteContext\<close> looks
  for a replacement with get-or-create of the name \<open>default\<close>, which finds the very context
  that is to be deleted, makes it current, and then deletes it. The call succeeds, the
  store has no context left, and the session still names \<open>default\<close>, which no longer
  exists: looking it up yields \<open>ErrNoRows\<close>.
\<close>

theorem C10_delete_only_default_context:
  "ContextWindow_DeleteContext
     \<lparr>model = stubModel [] 0, maxTokens = 4096, summarizer = None, summarizerPrompt = [],
      metrics = 0, currentContext = ''default''\<rparr>
     ''default'' ''id-new'' 9
     \<lparr>contexts = [\<lparr>CtxID = ''id-default'', Name = ''default'', StartTime = 1,
                    UseServerSideThreading = False, LastResponseID = None\<rparr>],
      records = [\<lparr>ID = 1, Timestamp = 2, Source = Prompt, Content = ''hello'', Live = True,
                   EstTokens = 5, ContextID = ''id-default'', ResponseID = None\<rparr>],
      next_id = 2, stmts = 0, fails = (\<lambda>n. False)\<rparr>
   = (Inr (),
      \<lparr>model = stubModel [] 0, maxTokens = 4096, summarizer = None, summarizerPrompt = [],
       metrics = 0, currentContext = ''default''\<rparr>,
      \<lparr>contexts = [], records = [], next_id = 2, stmts = 7, fails = (\<lambda>n. False)\<rparr>)
   \<and> getContextIDByName ''default''
       \<lparr>contexts = [], records = [], next_id = 2, stmts = 7, fails = (\<lambda>n. False)\<rparr>
     = (Inl ErrNoRows,
        \<lparr>contexts = [], records = [], next_id = 2, stmts = 8, fails = (\<lambda>n. False)\<rparr>)"
  by (simp add: ContextWindow_DeleteContext_def ListContexts_def CreateContext_def
      CreateContextWithThreading_def DeleteContextByName_def DeleteContext_def
      GetContextByName_eq getContextIDByName_eq transaction_def io_defs)

end
